theory Spec2Isabelle
  imports Main "HOL-Library.Sublist" "HOL-Library.AList"
begin

section \<open>JavaScript values used by the tools\<close>

text \<open>
  Strings are \<^typ>\<open>string\<close>; a \<^typ>\<open>char\<close> stands for the UTF-16 code unit of the same
  value, so the strings of the model are the JavaScript strings whose code units are below
  256, and \<open>length\<close> and \<open>take\<close> count as \<open>.length\<close> and \<open>substring(0, n)\<close> do.
  \<open>String.prototype.trim\<close> removes white space and line terminators at both ends:
  the code units of \<open>js_white_space\<close> (tab, line feed, vertical tab, form feed,
  carriage return, space, no-break space U+00A0, U+1680, U+2000 to U+200A, U+2028,
  U+2029, U+202F, U+205F, U+3000 and U+FEFF). \<open>split(",")\<close> cuts at every comma and
  keeps empty pieces; a string is truthy iff it is not empty.
\<close>

definition js_white_space :: "nat \<Rightarrow> bool" where
  "js_white_space u =
     (u \<in> set [0x09, 0x0A, 0x0B, 0x0C, 0x0D, 0x20, 0xA0, 0x1680, 0x2028, 0x2029, 0x202F,
               0x205F, 0x3000, 0xFEFF] \<or> (0x2000 \<le> u \<and> u \<le> 0x200A))"

definition is_ws :: "char \<Rightarrow> bool" where
  "is_ws c = js_white_space (of_char c)"

definition trim :: "string \<Rightarrow> string" where
  "trim s = rev (dropWhile is_ws (rev (dropWhile is_ws s)))"

fun split_on :: "char \<Rightarrow> string \<Rightarrow> string list" where
  "split_on sep [] = [[]]"
| "split_on sep (c # cs) =
     (if c = sep then [] # split_on sep cs
      else (case split_on sep cs of [] \<Rightarrow> [[c]] | w # ws \<Rightarrow> (c # w) # ws))"

definition truthy :: "string \<Rightarrow> bool" where
  "truthy s = (s \<noteq> [])"

text \<open>\<open>process.env.X?.trim()\<close> is truthy iff the variable is set and not blank.\<close>

definition env_set :: "string option \<Rightarrow> bool" where
  "env_set v = (case v of None \<Rightarrow> False | Some s \<Rightarrow> truthy (trim s))"

text \<open>A number in a template literal: its decimal digits.\<close>

definition digit_char :: "nat \<Rightarrow> char" where
  "digit_char d = ''0123456789'' ! (d mod 10)"

fun string_of_nat :: "nat \<Rightarrow> string" where
  "string_of_nat n =
     (if n < 10 then [digit_char n]
      else string_of_nat (n div 10) @ [digit_char (n mod 10)])"

declare string_of_nat.simps [simp del]

text \<open>
  The value a tool hands to \<open>JSON.stringify\<close>. The tools below return this value; the
  text the caller sees is its serialisation.
\<close>

datatype json =
    JNull
  | JBool bool
  | JNum int
  | JStr string
  | JArr "json list"
  | JObj "(string \<times> json) list"

type_synonym tool_input = "string \<Rightarrow> json option"

text \<open>\<open>typeof input.k === "string" ? input.k.trim() : dflt\<close>\<close>

definition str_field :: "tool_input \<Rightarrow> string \<Rightarrow> string \<Rightarrow> string" where
  "str_field input k dflt = (case input k of Some (JStr s) \<Rightarrow> trim s | _ \<Rightarrow> dflt)"

text \<open>
  What the runtime, the store and the libraries throw: an \<open>Error\<close> object with its
  \<open>name\<close> and \<open>message\<close>, or a string. \<open>String(err)\<close> is \<open>Error.prototype.toString\<close> on
  the former; \<open>err?.message\<close> is undefined on the latter. A computation that may throw
  returns \<open>js_thrown + 'a\<close>. (A tool's handler may throw any value: \<open>thrown_value\<close>
  below.)
\<close>

datatype js_thrown = ErrorObj string string | ThrownString string

fun String_of :: "js_thrown \<Rightarrow> string" where
  "String_of (ErrorObj nm msg) =
     (if nm = [] then msg else if msg = [] then nm else nm @ '': '' @ msg)"
| "String_of (ThrownString s) = s"

text \<open>\<open>err?.message || String(err)\<close>\<close>

fun errorMsg_of :: "js_thrown \<Rightarrow> string" where
  "errorMsg_of (ErrorObj nm msg) = (if truthy msg then msg else String_of (ErrorObj nm msg))"
| "errorMsg_of (ThrownString s) = s"

definition new_Error :: "string \<Rightarrow> js_thrown" where
  "new_Error msg = ErrorObj ''Error'' msg"

record process_env =
  GEMINI_API_KEY :: "string option"
  GEMINI_MODEL :: "string option"
  OLLAMA_MODEL :: "string option"
  ANTHROPIC_API_KEY :: "string option"
  OWNER_USER_ID :: "string option"


section \<open>Tool registry: \<open>tools/types.ts\<close>, \<open>tools/index.ts\<close>\<close>

record ToolContext =
  userId :: string

text \<open>
  A handler may throw any value. \<open>executeTool\<close> puts the value into a template
  literal, which tells these kinds apart: an \<open>Error\<close> object (name and message), whose
  text is that of \<open>Error.prototype.toString\<close>; a string, which is its own text (another
  primitive converts like the string of its text); a plain object, with its
  \<open>message\<close> property if it has one, whose text is \<open>[object Object]\<close>; a symbol and an
  object without \<open>toString\<close> (one made by \<open>Object.create(null)\<close>), for which the
  conversion throws a \<open>TypeError\<close>.
\<close>

datatype thrown_value =
    ThrewError string string
  | ThrewString string
  | ThrewObject "string option"
  | ThrewSymbol string
  | ThrewBare

fun template_of :: "thrown_value \<Rightarrow> js_thrown + string" where
  "template_of (ThrewError nm msg) = Inr (String_of (ErrorObj nm msg))"
| "template_of (ThrewString s) = Inr s"
| "template_of (ThrewObject m) = Inr ''[object Object]''"
| "template_of (ThrewSymbol d) =
     Inl (ErrorObj ''TypeError'' ''Cannot convert a Symbol value to a string'')"
| "template_of ThrewBare =
     Inl (ErrorObj ''TypeError'' ''Cannot convert object to primitive value'')"



text \<open>
  A tool's \<open>execute\<close> is a promise of a string: it resolves (\<open>Inr\<close>) or it rejects or
  throws (\<open>Inl\<close>). The JSON schema of the parameters plays no part in dispatch.
\<close>

record ToolDefinition =
  tool_name :: string
  tool_description :: string
  tool_execute :: "tool_input \<Rightarrow> ToolContext option \<Rightarrow> thrown_value + string"

definition findTool :: "ToolDefinition list \<Rightarrow> string \<Rightarrow> ToolDefinition option" where
  "findTool allTools nm = find (\<lambda>t. tool_name t = nm) allTools"

definition executeTool ::
  "ToolDefinition list \<Rightarrow> string \<Rightarrow> tool_input \<Rightarrow> ToolContext option \<Rightarrow> js_thrown + string"
where
  "executeTool allTools nm input ctx =
     (case findTool allTools nm of
        None \<Rightarrow> Inr (''Error: tool '' @ [CHR 0x22] @ nm @ [CHR 0x22] @ '' not found'')
      | Some tool \<Rightarrow>
          (case tool_execute tool input ctx of
             Inr s \<Rightarrow> Inr s
           | Inl err \<Rightarrow>
               (case template_of err of
                  Inl typeError \<Rightarrow> Inl typeError
                | Inr txt \<Rightarrow> Inr (''Error executing '' @ nm @ '': '' @ txt))))"


definition printable_throws :: "ToolDefinition list \<Rightarrow> bool" where
  "printable_throws allTools =
     (\<forall>tool input ctx err. tool \<in> set allTools \<and> tool_execute tool input ctx = Inl err \<longrightarrow>
        (\<exists>txt. template_of err = Inr txt))"



section \<open>Owner-only tools: \<open>gateway\<close> and \<open>sessions_send\<close>\<close>

text \<open>
  Both tools carry the same \<open>isOwner\<close>. \<open>context?.userId\<close> is \<open>None\<close> when there is no
  context; \<open>!userId\<close> also holds of the empty string.
\<close>

definition isOwner :: "process_env \<Rightarrow> string option \<Rightarrow> bool" where
  "isOwner env uid =
     (case map_option trim (OWNER_USER_ID env) of
        None \<Rightarrow> True
      | Some ownerIds \<Rightarrow>
          if \<not> truthy ownerIds then True
          else (case uid of
                  None \<Rightarrow> False
                | Some u \<Rightarrow>
                    if \<not> truthy u then False
                    else u \<in> set (map trim (split_on CHR '','' ownerIds))))"

text \<open>
  \<open>gatewayTool.execute\<close>: the action name is read, then the owner check guards the whole
  \<open>switch\<close>, which is the parameter \<open>actions\<close> here.
\<close>

definition gatewayTool_execute ::
  "process_env \<Rightarrow> (string \<Rightarrow> tool_input \<Rightarrow> ToolContext option \<Rightarrow> json) \<Rightarrow>
   tool_input \<Rightarrow> ToolContext option \<Rightarrow> json"
where
  "gatewayTool_execute env actions input ctx =
     (let action = str_field input ''action'' ''''
      in if \<not> isOwner env (map_option userId ctx)
         then JObj [(''error'', JStr ''forbidden''),
                    (''message'', JStr ''This tool is restricted to the bot owner.'')]
         else actions action input ctx)"

text \<open>
  \<open>sessionsSendTool.execute\<close>: the owner check comes first; \<open>send\<close> is the rest of the
  body (argument checks, the push and the session log).
\<close>

definition sessionsSendTool_execute ::
  "process_env \<Rightarrow> (tool_input \<Rightarrow> ToolContext option \<Rightarrow> json) \<Rightarrow>
   tool_input \<Rightarrow> ToolContext option \<Rightarrow> json"
where
  "sessionsSendTool_execute env send input ctx =
     (if \<not> isOwner env (map_option userId ctx)
      then JObj [(''error'', JStr ''forbidden''),
                 (''message'', JStr ''sessions_send is restricted to the bot owner.'')]
      else send input ctx)"


section \<open>Agent loop: \<open>ai.ts\<close>\<close>

text \<open>
  The three provider functions share the history rows \<open>(role, content)\<close> loaded from
  the store, the user's message and, for Gemini and Anthropic, the optional media. Each
  model call is a function from the request to what came back, so a scripted adapter is
  a \<open>\<lambda>\<close>. Tool calls go through \<^const>\<open>executeTool\<close> with the context of the turn. Every
  loop carries a counter \<open>turns\<close> of the model calls made so far; it is not a variable
  of the source and only records how often the model was asked. The out-of-band audio
  and image results and the saving of messages are left out.
\<close>

record MediaData =
  mimeType :: string
  buffer :: string

definition MAX_HISTORY :: nat where
  "MAX_HISTORY = 20"

text \<open>\<open>xs.slice(-n)\<close> for positive \<open>n\<close>: the last \<open>n\<close> elements.\<close>

definition slice_last :: "nat \<Rightarrow> 'a list \<Rightarrow> 'a list" where
  "slice_last n xs = drop (length xs - n) xs"

fun join_lines :: "string list \<Rightarrow> string" where
  "join_lines [] = []"
| "join_lines [x] = x"
| "join_lines (x # y # ys) = x @ [CHR 0x0A] @ join_lines (y # ys)"

definition getToolDefinitions :: "ToolDefinition list \<Rightarrow> (string \<times> string) list" where
  "getToolDefinitions allTools = map (\<lambda>t. (tool_name t, tool_description t)) allTools"

text \<open>The arguments object of a tool call, read as the tool's input record.\<close>

fun input_of :: "json \<Rightarrow> tool_input" where
  "input_of (JObj kvs) = map_of kvs"
| "input_of _ = Map.empty"

definition or_no_response :: "string \<Rightarrow> string" where
  "or_no_response lastText = (if truthy lastText then lastText else ''(no response)'')"

subsection \<open>Gemini\<close>

text \<open>
  A part of a model turn has an optional \<open>text\<close> and an optional \<open>functionCall\<close>; the
  conversation also holds function responses and inline media.
\<close>

datatype GeminiPart =
    Part "string option" "(string \<times> json) option"
  | FunctionResponse string string
  | InlineData string string

datatype gemini_role = RoleUser | RoleModel

type_synonym GeminiContent = "gemini_role \<times> GeminiPart list"

record gemini_request =
  g_systemInstruction :: string
  g_contents :: "GeminiContent list"
  g_tools :: "(string \<times> string) list option"

text \<open>
  What \<open>fetch\<close> gives: it throws, or the response is not \<open>ok\<close> (status and body), or
  the JSON body has a first candidate (its parts) or none.
\<close>

datatype gemini_reply =
    GeminiFetchThrows js_thrown
  | GeminiNotOk nat string
  | GeminiJson "GeminiPart list option"

fun part_functionCall :: "GeminiPart \<Rightarrow> (string \<times> json) option" where
  "part_functionCall (Part t fc) = fc"
| "part_functionCall _ = None"

fun part_text :: "GeminiPart \<Rightarrow> string option" where
  "part_text (Part t fc) = t"
| "part_text _ = None"

text \<open>\<open>parts.filter((p) => p.text).map((p) => p.text)\<close>, one part at a time.\<close>

definition truthy_text :: "GeminiPart \<Rightarrow> string list" where
  "truthy_text p = (case part_text p of None \<Rightarrow> [] | Some t \<Rightarrow> if truthy t then [t] else [])"

text \<open>The \<open>for\<close> loop over the function calls of one turn, in the order requested.\<close>

fun gemini_run_calls ::
  "ToolDefinition list \<Rightarrow> string \<Rightarrow> GeminiPart list \<Rightarrow> js_thrown + GeminiPart list"
where
  "gemini_run_calls allTools uid [] = Inr []"
| "gemini_run_calls allTools uid (p # ps) =
     (case part_functionCall p of
        None \<Rightarrow> gemini_run_calls allTools uid ps
      | Some (nm, args) \<Rightarrow>
          (case executeTool allTools nm (input_of args) (Some \<lparr>userId = uid\<rparr>) of
             Inl e \<Rightarrow> Inl e
           | Inr result \<Rightarrow>
               (case gemini_run_calls allTools uid ps of
                  Inl e \<Rightarrow> Inl e
                | Inr rest \<Rightarrow> Inr (FunctionResponse nm result # rest))))"

text \<open>
  \<open>while (maxLoops-- > 0)\<close>: the recursion is on the source's own counter. The result is
  \<open>lastText\<close>, or the error thrown out of the loop.
\<close>

fun gemini_loop ::
  "ToolDefinition list \<Rightarrow> (gemini_request \<Rightarrow> gemini_reply) \<Rightarrow> string \<Rightarrow> string \<Rightarrow>
   (string \<times> string) list option \<Rightarrow> nat \<Rightarrow> GeminiContent list \<Rightarrow> nat \<Rightarrow>
   (js_thrown + string) \<times> nat"
where
  "gemini_loop allTools fetch systemPrompt uid geminiTools 0 contents turns = (Inr [], turns)"
| "gemini_loop allTools fetch systemPrompt uid geminiTools (Suc maxLoops) contents turns =
     (case fetch \<lparr>g_systemInstruction = systemPrompt, g_contents = contents,
                  g_tools = geminiTools\<rparr> of
        GeminiFetchThrows e \<Rightarrow> (Inl e, Suc turns)
      | GeminiNotOk st err \<Rightarrow>
          (Inl (new_Error (''Gemini API error: '' @ string_of_nat st @ '' '' @ err)), Suc turns)
      | GeminiJson None \<Rightarrow> (Inr ''(no response from Gemini)'', Suc turns)
      | GeminiJson (Some parts) \<Rightarrow>
          (let contents1 = contents @ [(RoleModel, parts)];
               functionCalls = filter (\<lambda>p. part_functionCall p \<noteq> None) parts
           in if length functionCalls > 0
              then (case gemini_run_calls allTools uid functionCalls of
                      Inl e \<Rightarrow> (Inl e, Suc turns)
                    | Inr responseParts \<Rightarrow>
                        gemini_loop allTools fetch systemPrompt uid geminiTools maxLoops
                          (contents1 @ [(RoleUser, responseParts)]) (Suc turns))
              else (Inr (join_lines (concat (map truthy_text parts))), Suc turns)))"

definition chatGemini ::
  "ToolDefinition list \<Rightarrow> (gemini_request \<Rightarrow> gemini_reply) \<Rightarrow> string \<Rightarrow>
   (string \<times> string) list \<Rightarrow> string \<Rightarrow> string \<Rightarrow> MediaData option \<Rightarrow>
   (js_thrown + string) \<times> nat"
where
  "chatGemini allTools fetch message dbHistory systemPrompt uid media =
     (let toolDefs = getToolDefinitions allTools;
          contents = map (\<lambda>(r, c). (if r = ''assistant'' then RoleModel else RoleUser,
                                      [Part (Some c) None]))
                       (slice_last (MAX_HISTORY - 1) dbHistory);
          userParts = [Part (Some message) None] @
            (case media of
               None \<Rightarrow> []
             | Some m \<Rightarrow>
                 if list_ex (\<lambda>p. prefix p (mimeType m)) [''image/'', ''video/'', ''audio/'']
                 then [InlineData (mimeType m) (buffer m)] else []);
          hasHeavyMedia =
            (case media of
               None \<Rightarrow> False
             | Some m \<Rightarrow> prefix ''video/'' (mimeType m) \<or> prefix ''audio/'' (mimeType m));
          geminiTools = (if length toolDefs > 0 \<and> \<not> hasHeavyMedia then Some toolDefs else None);
          r = gemini_loop allTools fetch systemPrompt uid geminiTools 10
                (contents @ [(RoleUser, userParts)]) 0
      in (map_sum id or_no_response (fst r), snd r))"

subsection \<open>Ollama\<close>

record ollama_tool_call =
  tc_id :: string
  tc_name :: string
  tc_arguments :: string

record ollama_message =
  om_role :: string
  om_content :: "string option"
  om_tool_calls :: "ollama_tool_call list option"
  om_tool_call_id :: "string option"

record ollama_request =
  o_messages :: "ollama_message list"
  o_tools :: "(string \<times> string) list option"

datatype ollama_reply =
    OllamaFetchThrows js_thrown
  | OllamaNotOk nat string
  | OllamaJson "ollama_message option"

text \<open>
  \<open>JSON.parse\<close> (\<open>None\<close> when it throws), the match of the tool-call pattern against a
  text (the captured name and arguments text) and \<open>Date.now()\<close> come from outside.
\<close>

record js_runtime =
  JSON_parse :: "string \<Rightarrow> json option"
  match_tool_call :: "string \<Rightarrow> (string \<times> string) option"
  Date_now :: nat

definition parseToolCallFromText ::
  "ToolDefinition list \<Rightarrow> js_runtime \<Rightarrow> string \<Rightarrow> (string \<times> json) option"
where
  "parseToolCallFromText allTools rt text =
     (if \<not> truthy text then None
      else (case match_tool_call rt text of
              None \<Rightarrow> None
            | Some (nm, argsText) \<Rightarrow>
                (case JSON_parse rt argsText of
                   None \<Rightarrow> None
                 | Some args \<Rightarrow> if findTool allTools nm \<noteq> None then Some (nm, args) else None)))"

definition tool_message :: "string \<Rightarrow> string \<Rightarrow> ollama_message" where
  "tool_message result cid =
     \<lparr>om_role = ''tool'', om_content = Some result, om_tool_calls = None,
      om_tool_call_id = Some cid\<rparr>"

fun ollama_run_calls ::
  "ToolDefinition list \<Rightarrow> js_runtime \<Rightarrow> string \<Rightarrow> ollama_tool_call list \<Rightarrow>
   js_thrown + ollama_message list"
where
  "ollama_run_calls allTools rt uid [] = Inr []"
| "ollama_run_calls allTools rt uid (tc # tcs) =
     (case JSON_parse rt (tc_arguments tc) of
        None \<Rightarrow> Inl (ErrorObj ''SyntaxError'' ''Unexpected token in JSON'')
      | Some args \<Rightarrow>
          (case executeTool allTools (tc_name tc) (input_of args) (Some \<lparr>userId = uid\<rparr>) of
             Inl e \<Rightarrow> Inl e
           | Inr result \<Rightarrow>
               (case ollama_run_calls allTools rt uid tcs of
                  Inl e \<Rightarrow> Inl e
                | Inr rest \<Rightarrow> Inr (tool_message result (tc_id tc) # rest))))"

fun ollama_loop ::
  "ToolDefinition list \<Rightarrow> js_runtime \<Rightarrow> (ollama_request \<Rightarrow> ollama_reply) \<Rightarrow> string \<Rightarrow>
   (string \<times> string) list option \<Rightarrow> nat \<Rightarrow> ollama_message list \<Rightarrow> nat \<Rightarrow>
   (js_thrown + string) \<times> nat"
where
  "ollama_loop allTools rt fetch uid ollamaTools 0 messages turns = (Inr [], turns)"
| "ollama_loop allTools rt fetch uid ollamaTools (Suc maxLoops) messages turns =
     (case fetch \<lparr>o_messages = messages, o_tools = ollamaTools\<rparr> of
        OllamaFetchThrows e \<Rightarrow> (Inl e, Suc turns)
      | OllamaNotOk st err \<Rightarrow>
          (Inl (new_Error (''Ollama API error: '' @ string_of_nat st @ '' '' @ err)), Suc turns)
      | OllamaJson None \<Rightarrow> (Inr [], Suc turns)
      | OllamaJson (Some assistantMsg) \<Rightarrow>
          (let messages1 = messages @ [assistantMsg];
               content = (case om_content assistantMsg of None \<Rightarrow> [] | Some c \<Rightarrow> c);
               tool_calls = (case om_tool_calls assistantMsg of None \<Rightarrow> [] | Some tcs \<Rightarrow> tcs)
           in if length tool_calls > 0
              then (case ollama_run_calls allTools rt uid tool_calls of
                      Inl e \<Rightarrow> (Inl e, Suc turns)
                    | Inr results \<Rightarrow>
                        ollama_loop allTools rt fetch uid ollamaTools maxLoops
                          (messages1 @ results) (Suc turns))
              else (case parseToolCallFromText allTools rt content of
                      Some (nm, args) \<Rightarrow>
                        (case executeTool allTools nm (input_of args) (Some \<lparr>userId = uid\<rparr>) of
                           Inl e \<Rightarrow> (Inl e, Suc turns)
                         | Inr result \<Rightarrow>
                             ollama_loop allTools rt fetch uid ollamaTools maxLoops
                               (messages1 @
                                  [tool_message result (''fallback-'' @ string_of_nat (Date_now rt))])
                               (Suc turns))
                    | None \<Rightarrow> (Inr content, Suc turns))))"

definition chatOllama ::
  "ToolDefinition list \<Rightarrow> js_runtime \<Rightarrow> (ollama_request \<Rightarrow> ollama_reply) \<Rightarrow> string \<Rightarrow>
   (string \<times> string) list \<Rightarrow> string \<Rightarrow> string \<Rightarrow> (js_thrown + string) \<times> nat"
where
  "chatOllama allTools rt fetch message dbHistory systemPrompt uid =
     (let tools = getToolDefinitions allTools;
          messages =
            [\<lparr>om_role = ''system'', om_content = Some systemPrompt, om_tool_calls = None,
              om_tool_call_id = None\<rparr>] @
            map (\<lambda>(r, c). \<lparr>om_role = r, om_content = Some c, om_tool_calls = None,
                           om_tool_call_id = None\<rparr>)
              (slice_last (MAX_HISTORY - 1) dbHistory) @
            [\<lparr>om_role = ''user'', om_content = Some message, om_tool_calls = None,
              om_tool_call_id = None\<rparr>];
          ollamaTools = (if length tools > 0 then Some tools else None);
          r = ollama_loop allTools rt fetch uid ollamaTools 10 messages 0
      in (map_sum id or_no_response (fst r), snd r))"


subsection \<open>Anthropic\<close>

datatype anthropic_block =
    TextBlock string
  | ToolUseBlock string string json
  | ImageBlock string string
  | ToolResultBlock string string

datatype anthropic_content = PlainContent string | BlockContent "anthropic_block list"

type_synonym MessageParam = "string \<times> anthropic_content"

record anthropic_message =
  msg_content :: "anthropic_block list"
  stop_reason :: string

record anthropic_request =
  a_system :: string
  a_tools :: "(string \<times> string) list"
  a_messages :: "MessageParam list"

definition ANTHROPIC_IMAGE_TYPES :: "string list" where
  "ANTHROPIC_IMAGE_TYPES = [''image/jpeg'', ''image/png'', ''image/gif'', ''image/webp'']"

fun anthropic_run_calls ::
  "ToolDefinition list \<Rightarrow> string \<Rightarrow> anthropic_block list \<Rightarrow> js_thrown + anthropic_block list"
where
  "anthropic_run_calls allTools uid [] = Inr []"
| "anthropic_run_calls allTools uid (ToolUseBlock bid nm inp # bs) =
     (case executeTool allTools nm (input_of inp) (Some \<lparr>userId = uid\<rparr>) of
        Inl e \<Rightarrow> Inl e
      | Inr result \<Rightarrow>
          (case anthropic_run_calls allTools uid bs of
             Inl e \<Rightarrow> Inl e
           | Inr rest \<Rightarrow> Inr (ToolResultBlock bid result # rest)))"
| "anthropic_run_calls allTools uid (b # bs) = anthropic_run_calls allTools uid bs"

text \<open>
  \<open>do { ... } while (response.stop_reason === "tool_use")\<close>. The loop has no counter of
  its own, so it need not return: the value \<open>None\<close> is the run that never leaves the
  loop. The result is the last response, or the error thrown by \<open>messages.create\<close>.
\<close>

partial_function (option) anthropic_loop ::
  "ToolDefinition list \<Rightarrow> (anthropic_request \<Rightarrow> js_thrown + anthropic_message) \<Rightarrow> string \<Rightarrow>
   string \<Rightarrow> MessageParam list \<Rightarrow> nat \<Rightarrow> ((js_thrown + anthropic_message) \<times> nat) option"
where
  "anthropic_loop allTools create systemPrompt uid history turns =
     (case create \<lparr>a_system = systemPrompt, a_tools = getToolDefinitions allTools,
                   a_messages = history\<rparr> of
        Inl e \<Rightarrow> Some (Inl e, Suc turns)
      | Inr response \<Rightarrow>
          (let history1 = history @ [(''assistant'', BlockContent (msg_content response))]
           in if stop_reason response = ''tool_use''
              then (case anthropic_run_calls allTools uid (msg_content response) of
                      Inl e \<Rightarrow> Some (Inl e, Suc turns)
                    | Inr toolResults \<Rightarrow>
                        anthropic_loop allTools create systemPrompt uid
                          (history1 @ [(''user'', BlockContent toolResults)]) (Suc turns))
              else Some (Inr response, Suc turns)))"

declare anthropic_loop.simps [code]

fun block_text :: "anthropic_block \<Rightarrow> string list" where
  "block_text (TextBlock t) = [t]"
| "block_text _ = []"

definition chatAnthropic ::
  "ToolDefinition list \<Rightarrow> (anthropic_request \<Rightarrow> js_thrown + anthropic_message) \<Rightarrow> string \<Rightarrow>
   (string \<times> string) list \<Rightarrow> string \<Rightarrow> string \<Rightarrow> MediaData option \<Rightarrow>
   ((js_thrown + string) \<times> nat) option"
where
  "chatAnthropic allTools create message dbHistory systemPrompt uid media =
     (let history = map (\<lambda>(r, c). (r, PlainContent c)) (slice_last (MAX_HISTORY - 1) dbHistory);
          userTurn =
            (case media of
               None \<Rightarrow> (''user'', PlainContent message)
             | Some m \<Rightarrow>
                 if mimeType m \<in> set ANTHROPIC_IMAGE_TYPES
                 then (''user'', BlockContent [ImageBlock (mimeType m) (buffer m), TextBlock message])
                 else (''user'', PlainContent message))
      in map_option
           (\<lambda>r. (map_sum id
                    (\<lambda>response. or_no_response
                       (join_lines (concat (map block_text (msg_content response)))))
                    (fst r),
                  snd r))
           (anthropic_loop allTools create systemPrompt uid (history @ [userTurn]) 0))"

subsection \<open>\<open>chat\<close>: provider selection and fallback\<close>

datatype provider = ProviderGemini | ProviderOllama | ProviderAnthropic | ProviderNone

definition AI_PROVIDER :: "process_env \<Rightarrow> provider" where
  "AI_PROVIDER env =
     (if env_set (GEMINI_API_KEY env) then ProviderGemini
      else if env_set (OLLAMA_MODEL env) then ProviderOllama
      else if env_set (ANTHROPIC_API_KEY env) then ProviderAnthropic
      else ProviderNone)"

record providers =
  gemini_fetch :: "gemini_request \<Rightarrow> gemini_reply"
  ollama_fetch :: "ollama_request \<Rightarrow> ollama_reply"
  anthropic_create :: "anthropic_request \<Rightarrow> js_thrown + anthropic_message"

text \<open>
  The reply of \<open>chat\<close>: \<open>NotConfigured\<close> is the fixed notice returned when no provider
  is configured, \<open>Reply\<close> carries the model's text. \<open>dbHistory\<close> and \<open>fullSystemPrompt\<close>
  are what the store and the memory search gave.
\<close>

datatype chat_reply = NotConfigured | Reply string

definition chat ::
  "process_env \<Rightarrow> ToolDefinition list \<Rightarrow> js_runtime \<Rightarrow> providers \<Rightarrow>
   (string \<times> string) list \<Rightarrow> string \<Rightarrow> string \<Rightarrow> string \<Rightarrow> MediaData option \<Rightarrow>
   (js_thrown + chat_reply) option"
where
  "chat env allTools rt ps dbHistory fullSystemPrompt uid message media =
     (if AI_PROVIDER env = ProviderNone then Some (Inr NotConfigured)
      else if AI_PROVIDER env = ProviderGemini then
        (case fst (chatGemini allTools (gemini_fetch ps) message dbHistory fullSystemPrompt uid media) of
           Inr reply \<Rightarrow> Some (Inr (Reply reply))
         | Inl err \<Rightarrow>
             if env_set (OLLAMA_MODEL env)
             then Some (map_sum id Reply
                    (fst (chatOllama allTools rt (ollama_fetch ps) message dbHistory
                            fullSystemPrompt uid)))
             else Some (Inl err))
      else if AI_PROVIDER env = ProviderOllama then
        Some (map_sum id Reply
               (fst (chatOllama allTools rt (ollama_fetch ps) message dbHistory fullSystemPrompt uid)))
      else
        map_option (\<lambda>r. map_sum id Reply (fst r))
          (chatAnthropic allTools (anthropic_create ps) message dbHistory fullSystemPrompt uid media))"


subsection \<open>Scripted adapters\<close>

text \<open>
  An adapter that asks for a tool on every turn and never gives a final text, for each
  provider, and the adapters of a failing Gemini with a working Ollama beside it.
\<close>

definition gemini_always_calls :: "(gemini_request \<Rightarrow> gemini_reply) \<Rightarrow> bool" where
  "gemini_always_calls fetch =
     (\<forall>req. \<exists>parts. fetch req = GeminiJson (Some parts) \<and>
                     filter (\<lambda>p. part_functionCall p \<noteq> None) parts \<noteq> [])"

definition ollama_always_calls :: "js_runtime \<Rightarrow> (ollama_request \<Rightarrow> ollama_reply) \<Rightarrow> bool" where
  "ollama_always_calls rt fetch =
     (\<forall>req. \<exists>m tcs. fetch req = OllamaJson (Some m) \<and> om_tool_calls m = Some tcs \<and>
                     tcs \<noteq> [] \<and> list_all (\<lambda>tc. JSON_parse rt (tc_arguments tc) \<noteq> None) tcs)"

definition always_tool_use :: "(anthropic_request \<Rightarrow> js_thrown + anthropic_message) \<Rightarrow> bool" where
  "always_tool_use create =
     (\<forall>req. \<exists>response. create req = Inr response \<and> stop_reason response = ''tool_use'')"

definition scripted_tool_use :: "anthropic_request \<Rightarrow> js_thrown + anthropic_message" where
  "scripted_tool_use req =
     Inr \<lparr>msg_content = [ToolUseBlock ''call_1'' ''get_datetime'' (JObj [])],
          stop_reason = ''tool_use''\<rparr>"

definition gemini_quota_exceeded :: "gemini_request \<Rightarrow> gemini_reply" where
  "gemini_quota_exceeded req = GeminiNotOk 429 ''quota''"

definition ollama_says_hello :: "ollama_request \<Rightarrow> ollama_reply" where
  "ollama_says_hello req =
     OllamaJson (Some \<lparr>om_role = ''assistant'', om_content = Some ''hello'',
                       om_tool_calls = None, om_tool_call_id = None\<rparr>)"

definition no_runtime :: js_runtime where
  "no_runtime = \<lparr>JSON_parse = (\<lambda>s. None), match_tool_call = (\<lambda>s. None), Date_now = 0\<rparr>"

definition env_gemini_ollama :: process_env where
  "env_gemini_ollama =
     \<lparr>GEMINI_API_KEY = Some ''key'', GEMINI_MODEL = None, OLLAMA_MODEL = Some ''llama3'',
      ANTHROPIC_API_KEY = None, OWNER_USER_ID = None\<rparr>"


section \<open>Background tasks: \<open>sessions_spawn\<close> and the task body\<close>

datatype task_status = Running | Completed | Failed | Cancelled

record BackgroundTask =
  bt_id :: string
  bt_label :: string
  bt_task :: string
  bt_status :: task_status
  bt_result :: "string option"
  bt_model :: "string option"
  bt_user_id :: string
  bt_created_at :: string
  bt_completed_at :: "string option"

text \<open>
  An entry of \<open>runningTasks\<close> holds its own copy of the task record and a reference to
  the task's \<open>AbortController\<close>. The controller is shared by the entry, by the timeout
  that aborts it and by the running body, so its \<open>aborted\<close> flag lives in a store
  indexed by the reference.
\<close>

record running_entry =
  re_task :: BackgroundTask
  re_abortController :: nat
  re_startedAt :: nat

text \<open>
  \<open>executeBackgroundTask\<close> is started and not awaited. It runs until its first
  \<open>await\<close> and is resumed when the awaited call settles: the model call first, the
  push of the outcome to the user second. A suspended body remembers where it waits.
\<close>

datatype body_phase = AwaitingModel | AwaitingPush

record suspended_body =
  sb_userId :: string
  sb_signal :: nat
  sb_phase :: body_phase

text \<open>
  The table \<open>background_tasks\<close> (primary key \<open>id\<close>), the map \<open>runningTasks\<close> in
  insertion order, the controllers' flags, the armed timeouts (one per controller) and
  the suspended bodies.
\<close>

record task_state =
  background_tasks :: "string \<Rightarrow> BackgroundTask option"
  runningTasks :: "(string \<times> running_entry) list"
  signal_aborted :: "nat \<Rightarrow> bool"
  timeout_armed :: "nat \<Rightarrow> bool"
  suspended :: "string \<Rightarrow> suspended_body option"
  next_controller :: nat

definition initial_task_state :: task_state where
  "initial_task_state =
     \<lparr>background_tasks = Map.empty, runningTasks = [], signal_aborted = (\<lambda>r. False),
      timeout_armed = (\<lambda>r. False), suspended = Map.empty, next_controller = 0\<rparr>"

text \<open>\<open>UPDATE background_tasks SET ... WHERE id = ?\<close>: no row, no change.\<close>

definition UPDATE_task ::
  "(string \<Rightarrow> BackgroundTask option) \<Rightarrow> string \<Rightarrow> (BackgroundTask \<Rightarrow> BackgroundTask) \<Rightarrow>
   (string \<Rightarrow> BackgroundTask option)"
where
  "UPDATE_task tbl tid f = (case tbl tid of None \<Rightarrow> tbl | Some row \<Rightarrow> tbl(tid \<mapsto> f row))"

definition getActiveProvider :: "process_env \<Rightarrow> string \<times> string" where
  "getActiveProvider env =
     (if env_set (GEMINI_API_KEY env)
      then (''gemini'',
            (case map_option trim (GEMINI_MODEL env) of
               None \<Rightarrow> ''gemini-2.0-flash''
             | Some m \<Rightarrow> if truthy m then m else ''gemini-2.0-flash''))
      else if env_set (OLLAMA_MODEL env)
      then (''ollama'', (case OLLAMA_MODEL env of None \<Rightarrow> [] | Some m \<Rightarrow> trim m))
      else if env_set (ANTHROPIC_API_KEY env)
      then (''anthropic'', ''claude-sonnet-4-20250514'')
      else (''none'', []))"

text \<open>
  The \<open>finally\<close> block of the body, followed by the \<open>clearTimeout\<close> chained to its
  promise.
\<close>

definition body_finally :: "task_state \<Rightarrow> string \<Rightarrow> nat \<Rightarrow> task_state" where
  "body_finally s taskId signal =
     s\<lparr>runningTasks := AList.delete taskId (runningTasks s),
       timeout_armed := (timeout_armed s)(signal := False),
       suspended := (suspended s)(taskId := None)\<rparr>"

text \<open>
  The \<open>catch\<close> block: with the signal aborted it only returns; otherwise it marks the
  row \<open>failed\<close> and waits for the push that tells the user.
\<close>

definition body_catch ::
  "task_state \<Rightarrow> string \<Rightarrow> string \<Rightarrow> nat \<Rightarrow> js_thrown \<Rightarrow> string \<Rightarrow> task_state"
where
  "body_catch s taskId uid signal err now =
     (if signal_aborted s signal then body_finally s taskId signal
      else
        (let errorMsg = errorMsg_of err
         in s\<lparr>background_tasks :=
                 UPDATE_task (background_tasks s) taskId
                   (\<lambda>row. row\<lparr>bt_status := Failed,
                                bt_result := Some (''Error: '' @ take 5000 errorMsg),
                                bt_completed_at := Some now\<rparr>),
               suspended :=
                 (suspended s)(taskId \<mapsto>
                    \<lparr>sb_userId = uid, sb_signal = signal, sb_phase = AwaitingPush\<rparr>)\<rparr>))"

text \<open>The body up to its first \<open>await\<close>.\<close>

definition executeBackgroundTask ::
  "process_env \<Rightarrow> task_state \<Rightarrow> string \<Rightarrow> string \<Rightarrow> nat \<Rightarrow> string \<Rightarrow> task_state"
where
  "executeBackgroundTask env s taskId uid signal now =
     (let provider = fst (getActiveProvider env)
      in if signal_aborted s signal
         then body_catch s taskId uid signal (new_Error ''Task cancelled before start'') now
         else if provider = ''gemini'' \<or> provider = ''ollama'' \<or> provider = ''anthropic''
         then s\<lparr>suspended :=
                  (suspended s)(taskId \<mapsto>
                     \<lparr>sb_userId = uid, sb_signal = signal, sb_phase = AwaitingModel\<rparr>)\<rparr>
         else body_catch s taskId uid signal (new_Error ''No AI provider configured'') now)"

text \<open>The body resumed when the model call has settled, with a text or an error.\<close>

definition executeBackgroundTask_after_model ::
  "task_state \<Rightarrow> string \<Rightarrow> js_thrown + string \<Rightarrow> string \<Rightarrow> task_state"
where
  "executeBackgroundTask_after_model s taskId outcome now =
     (case suspended s taskId of
        None \<Rightarrow> s
      | Some b \<Rightarrow>
          if sb_phase b \<noteq> AwaitingModel then s
          else (case outcome of
                  Inl err \<Rightarrow> body_catch s taskId (sb_userId b) (sb_signal b) err now
                | Inr result \<Rightarrow>
                    if signal_aborted s (sb_signal b)
                    then body_catch s taskId (sb_userId b) (sb_signal b)
                           (new_Error ''Task cancelled'') now
                    else s\<lparr>background_tasks :=
                             UPDATE_task (background_tasks s) taskId
                               (\<lambda>row. row\<lparr>bt_status := Completed,
                                            bt_result := Some (take 10000 result),
                                            bt_completed_at := Some now\<rparr>),
                           suspended := (suspended s)(taskId \<mapsto> b\<lparr>sb_phase := AwaitingPush\<rparr>)\<rparr>))"

text \<open>The body resumed when the push has settled; a failed push is only logged.\<close>

definition executeBackgroundTask_after_push :: "task_state \<Rightarrow> string \<Rightarrow> task_state" where
  "executeBackgroundTask_after_push s taskId =
     (case suspended s taskId of
        None \<Rightarrow> s
      | Some b \<Rightarrow> if sb_phase b \<noteq> AwaitingPush then s else body_finally s taskId (sb_signal b))"

text \<open>The timeout set at spawn: \<open>() => abortController.abort()\<close>.\<close>

definition timeout_fires :: "task_state \<Rightarrow> nat \<Rightarrow> task_state" where
  "timeout_fires s signal =
     (if timeout_armed s signal
      then s\<lparr>signal_aborted := (signal_aborted s)(signal := True),
             timeout_armed := (timeout_armed s)(signal := False)\<rparr>
      else s)"

definition cancelTask :: "task_state \<Rightarrow> string \<Rightarrow> string \<Rightarrow> bool \<times> task_state" where
  "cancelTask s taskId now =
     (case map_of (runningTasks s) taskId of
        Some running \<Rightarrow>
          (True,
           s\<lparr>signal_aborted := (signal_aborted s)(re_abortController running := True),
             runningTasks := AList.delete taskId (runningTasks s),
             background_tasks :=
               UPDATE_task (background_tasks s) taskId
                 (\<lambda>row. row\<lparr>bt_status := Cancelled, bt_completed_at := Some now\<rparr>)\<rparr>)
      | None \<Rightarrow> (False, s))"

definition MAX_CHILDREN :: nat where
  "MAX_CHILDREN = 5"

text \<open>
  The new row, the new controller with its timeout, the entry in \<open>runningTasks\<close> and
  the start of the body: the tail shared by \<open>sessions_spawn\<close> and \<open>steerTask\<close>. An
  \<open>INSERT\<close> of an id the table already holds throws.
\<close>

definition launch_task ::
  "process_env \<Rightarrow> task_state \<Rightarrow> BackgroundTask \<Rightarrow> string \<Rightarrow> nat \<Rightarrow> js_thrown + task_state"
where
  "launch_task env s taskRecord now nowMs =
     (if background_tasks s (bt_id taskRecord) \<noteq> None
      then Inl (ErrorObj ''SqliteError'' ''UNIQUE constraint failed: background_tasks.id'')
      else
        (let abortController = next_controller s;
             s1 = s\<lparr>background_tasks := (background_tasks s)(bt_id taskRecord \<mapsto> taskRecord),
                    next_controller := Suc abortController,
                    signal_aborted := (signal_aborted s)(abortController := False),
                    timeout_armed := (timeout_armed s)(abortController := True)\<rparr>;
             s2 = s1\<lparr>runningTasks :=
                       AList.update (bt_id taskRecord)
                         \<lparr>re_task = taskRecord, re_abortController = abortController,
                          re_startedAt = nowMs\<rparr>
                         (runningTasks s1)\<rparr>
         in Inr (executeBackgroundTask env s2 (bt_id taskRecord) (bt_user_id taskRecord)
                   abortController now)))"

text \<open>
  \<open>sessionsSpawnTool.execute\<close>. \<open>newId\<close> is the random id, \<open>now\<close> the ISO time and
  \<open>nowMs\<close> the clock. The result is the JSON value returned, or what was thrown.
\<close>

definition sessionsSpawnTool_execute ::
  "process_env \<Rightarrow> task_state \<Rightarrow> tool_input \<Rightarrow> ToolContext option \<Rightarrow> string \<Rightarrow> string \<Rightarrow> nat \<Rightarrow>
   (js_thrown + json) \<times> task_state"
where
  "sessionsSpawnTool_execute env s input ctx newId now nowMs =
     (let task = str_field input ''task'' []
      in if \<not> truthy task
         then (Inr (JObj [(''error'', JStr ''missing_task''),
                          (''message'', JStr ''task is required.'')]), s)
         else (case map_option userId ctx of
            None \<Rightarrow> (Inr (JObj [(''error'', JStr ''no_user''),
                                  (''message'', JStr ''No userId available.'')]), s)
          | Some uid \<Rightarrow>
             if \<not> truthy uid
             then (Inr (JObj [(''error'', JStr ''no_user''),
                              (''message'', JStr ''No userId available.'')]), s)
             else
               (let userRunning =
                      length (filter (\<lambda>(k, entry). bt_user_id (re_task entry) = uid)
                                (runningTasks s))
                in if userRunning \<ge> MAX_CHILDREN
                   then (Inr (JObj [(''error'', JStr ''limit_exceeded''),
                            (''message'', JStr (''Maximum '' @ string_of_nat MAX_CHILDREN @
                               '' concurrent tasks per user. Use subagents tool to manage existing tasks.''))]),
                         s)
                   else
                     (let label =
                            (if truthy (str_field input ''label'' [])
                             then str_field input ''label'' []
                             else take 50 task @ (if length task > 50 then ''...'' else []));
                          model =
                            (if truthy (str_field input ''model'' [])
                             then Some (str_field input ''model'' []) else None);
                          timeoutSec =
                            (case input ''timeoutSeconds'' of
                               Some (JNum n) \<Rightarrow> max 10 (min 600 n)
                             | _ \<Rightarrow> 120);
                          taskRecord =
                            \<lparr>bt_id = newId, bt_label = label, bt_task = task, bt_status = Running,
                             bt_result = None, bt_model = model, bt_user_id = uid,
                             bt_created_at = now, bt_completed_at = None\<rparr>
                      in (case launch_task env s taskRecord now nowMs of
                            Inl e \<Rightarrow> (Inl e, s)
                          | Inr s' \<Rightarrow>
                              (Inr (JObj [(''status'', JStr ''accepted''),
                                     (''taskId'', JStr newId),
                                     (''label'', JStr label),
                                     (''model'', JStr (case model of
                                                        Some m \<Rightarrow> m
                                                      | None \<Rightarrow> snd (getActiveProvider env))),
                                     (''provider'', JStr (fst (getActiveProvider env))),
                                     (''timeoutSeconds'', JNum timeoutSec),
                                     (''message'', JStr ''Task started in background. Result will be sent to you automatically when complete.'')]),
                               s'))))))"

text \<open>
  \<open>steerTask\<close>: \<open>None\<close> when the task is not in \<open>runningTasks\<close>, else the new task's
  id. The old row is cancelled before the new one is inserted, so a throwing \<open>INSERT\<close>
  leaves the old task cancelled.
\<close>

definition steerTask ::
  "process_env \<Rightarrow> task_state \<Rightarrow> string \<Rightarrow> string \<Rightarrow> string \<Rightarrow> string \<Rightarrow> nat \<Rightarrow>
   (js_thrown + string option) \<times> task_state"
where
  "steerTask env s taskId newMessage newId now nowMs =
     (case map_of (runningTasks s) taskId of
        None \<Rightarrow> (Inr None, s)
      | Some running \<Rightarrow>
          (let originalTask = re_task running;
               s1 = s\<lparr>signal_aborted := (signal_aborted s)(re_abortController running := True),
                      runningTasks := AList.delete taskId (runningTasks s),
                      background_tasks :=
                        UPDATE_task (background_tasks s) taskId
                          (\<lambda>row. row\<lparr>bt_status := Cancelled,
                                       bt_result := Some ''Steered to new task'',
                                       bt_completed_at := Some now\<rparr>)\<rparr>;
               combinedTask = ''Original task: '' @ bt_task originalTask @
                              [CHR 0x0A, CHR 0x0A] @ ''--- UPDATED INSTRUCTIONS ---'' @
                              [CHR 0x0A] @ newMessage;
               newLabel = ''[steered] '' @ bt_label originalTask;
               newTaskRecord =
                 \<lparr>bt_id = newId, bt_label = newLabel, bt_task = combinedTask,
                  bt_status = Running, bt_result = None, bt_model = bt_model originalTask,
                  bt_user_id = bt_user_id originalTask, bt_created_at = now,
                  bt_completed_at = None\<rparr>
           in (case launch_task env s1 newTaskRecord now nowMs of
                 Inl e \<Rightarrow> (Inl e, s1)
               | Inr s' \<Rightarrow> (Inr (Some newId), s'))))"


subsection \<open>Scenarios\<close>

text \<open>
  User \<open>U1\<close> spawns tasks under Gemini. In the first scenario the timeout of the
  only task fires while the model call is in flight, and the aborted call then rejects.
  In the second the user has spawned five tasks, all still running.
\<close>

definition spawn_as :: "string \<Rightarrow> task_state \<Rightarrow> task_state" where
  "spawn_as newId s =
     snd (sessionsSpawnTool_execute env_gemini_ollama s
            [''task'' \<mapsto> JStr ''research the topic''] (Some \<lparr>userId = ''U1''\<rparr>)
            newId ''2026-01-01T00:00:00.000Z'' 0)"

definition spawned_state :: task_state where
  "spawned_state = spawn_as ''t1'' initial_task_state"

definition timed_out_state :: task_state where
  "timed_out_state =
     executeBackgroundTask_after_model (timeout_fires spawned_state 0) ''t1''
       (Inl (ErrorObj ''AbortError'' ''This operation was aborted''))
       ''2026-01-01T00:02:00.000Z''"

definition five_running :: task_state where
  "five_running =
     spawn_as ''t5'' (spawn_as ''t4'' (spawn_as ''t3'' (spawn_as ''t2'' spawned_state)))"

text \<open>
  In the third scenario each of the five tasks has timed out the way the first one did in
  the first scenario. In the fourth the keys have been cleared at run time (the gateway's
  \<open>config.set\<close> writes \<open>process.env\<close>), so no provider is configured any more when a
  task is steered.
\<close>

definition time_out :: "string \<Rightarrow> nat \<Rightarrow> task_state \<Rightarrow> task_state" where
  "time_out taskId signal s =
     executeBackgroundTask_after_model (timeout_fires s signal) taskId
       (Inl (ErrorObj ''AbortError'' ''This operation was aborted''))
       ''2026-01-01T00:02:00.000Z''"

definition five_timed_out :: task_state where
  "five_timed_out =
     time_out ''t5'' 4 (time_out ''t4'' 3 (time_out ''t3'' 2 (time_out ''t2'' 1
       (time_out ''t1'' 0 five_running))))"

definition env_keys_cleared :: process_env where
  "env_keys_cleared =
     \<lparr>GEMINI_API_KEY = Some [], GEMINI_MODEL = None, OLLAMA_MODEL = Some [],
      ANTHROPIC_API_KEY = None, OWNER_USER_ID = None\<rparr>"

text \<open>
  The record of a task spawned in these scenarios, and the record \<open>steerTask\<close> builds
  for the new task (\<open>newTaskRecord\<close>).
\<close>

definition research_task :: "string \<Rightarrow> BackgroundTask" where
  "research_task tid = \<lparr>bt_id = tid, bt_label = ''research the topic'',
                      bt_task = ''research the topic'', bt_status = Running, bt_result = None,
                      bt_model = None, bt_user_id = ''U1'',
                      bt_created_at = ''2026-01-01T00:00:00.000Z'', bt_completed_at = None\<rparr>"

definition steered_task :: "BackgroundTask \<Rightarrow> string \<Rightarrow> string \<Rightarrow> string \<Rightarrow> BackgroundTask" where
  "steered_task originalTask newMessage newId now =
     \<lparr>bt_id = newId, bt_label = ''[steered] '' @ bt_label originalTask,
      bt_task = ''Original task: '' @ bt_task originalTask @
                [CHR 0x0A, CHR 0x0A] @ ''--- UPDATED INSTRUCTIONS ---'' @
                [CHR 0x0A] @ newMessage,
      bt_status = Running, bt_result = None, bt_model = bt_model originalTask,
      bt_user_id = bt_user_id originalTask, bt_created_at = now,
      bt_completed_at = None\<rparr>"


section \<open>Scheduled jobs: the \<open>cron\<close> tool\<close>

datatype schedule_kind = Cron | Once

record CronJob =
  job_id :: string
  job_name :: string
  job_schedule :: string
  job_schedule_type :: schedule_kind
  job_message :: string
  job_target_user_id :: string
  job_timezone :: string
  job_enabled :: nat
  job_delete_after_run :: nat
  job_run_count :: nat
  job_last_run_at :: "string option"
  job_last_status :: "string option"
  job_last_error :: "string option"
  job_created_at :: string

record CronRun =
  run_id :: nat
  run_job_id :: string
  run_job_name :: string
  run_status :: string
  run_error :: "string option"
  run_started_at :: string
  run_completed_at :: "string option"

text \<open>
  What the tool takes from outside: \<open>cron.validate\<close> of node-cron; what \<open>cron.schedule\<close>
  of node-cron throws, if anything, for an expression and a time zone (the tool checks
  the expression before the call, but hands over the time zone as it is stored); the
  time value of \<open>new Date(text)\<close> in milliseconds (\<open>None\<close> for an invalid date); and
  whether the store enforces the foreign key of \<open>cron_runs\<close> (with \<open>ON DELETE CASCADE\<close>);
  the store module decides the last and is not part of the tool.
\<close>

record cron_lib =
  cron_validate :: "string \<Rightarrow> bool"
  schedule_throws :: "string \<Rightarrow> string \<Rightarrow> js_thrown option"
  Date_parse :: "string \<Rightarrow> int option"
  foreign_keys :: bool

text \<open>
  The tables \<open>cron_jobs\<close> (primary key \<open>id\<close>) and \<open>cron_runs\<close> (append-only, with an
  autoincremented id), the map \<open>activeTasks\<close> from a job id to its firing handle, and
  the timers that are live: a \<open>setTimeout\<close> not yet fired or cleared, or a node-cron
  task not stopped, each with the job object its callback has captured.
\<close>

record cron_state =
  cron_jobs :: "string \<Rightarrow> CronJob option"
  cron_runs :: "CronRun list"
  next_run_id :: nat
  activeTasks :: "string \<Rightarrow> nat option"
  timers :: "nat \<Rightarrow> CronJob option"
  next_timer :: nat

definition initial_cron_state :: cron_state where
  "initial_cron_state =
     \<lparr>cron_jobs = Map.empty, cron_runs = [], next_run_id = 1, activeTasks = Map.empty,
      timers = Map.empty, next_timer = 0\<rparr>"

definition UPDATE_job ::
  "(string \<Rightarrow> CronJob option) \<Rightarrow> string \<Rightarrow> (CronJob \<Rightarrow> CronJob) \<Rightarrow> (string \<Rightarrow> CronJob option)"
where
  "UPDATE_job tbl jid f = (case tbl jid of None \<Rightarrow> tbl | Some row \<Rightarrow> tbl(jid \<mapsto> f row))"

definition DELETE_job :: "cron_lib \<Rightarrow> cron_state \<Rightarrow> string \<Rightarrow> cron_state" where
  "DELETE_job lib s jid =
     s\<lparr>cron_jobs := (cron_jobs s)(jid := None),
       cron_runs := (if foreign_keys lib then filter (\<lambda>r. run_job_id r \<noteq> jid) (cron_runs s)
                     else cron_runs s)\<rparr>"

definition INSERT_run ::
  "cron_lib \<Rightarrow> cron_state \<Rightarrow> string \<Rightarrow> string \<Rightarrow> string \<Rightarrow> string option \<Rightarrow> string \<Rightarrow> string \<Rightarrow>
   js_thrown + cron_state"
where
  "INSERT_run lib s jid jname status err startedAt completedAt =
     (if foreign_keys lib \<and> cron_jobs s jid = None
      then Inl (ErrorObj ''SqliteError'' ''FOREIGN KEY constraint failed'')
      else Inr (s\<lparr>cron_runs := cron_runs s @
                      [\<lparr>run_id = next_run_id s, run_job_id = jid, run_job_name = jname,
                        run_status = status, run_error = err, run_started_at = startedAt,
                        run_completed_at = Some completedAt\<rparr>],
                   next_run_id := Suc (next_run_id s)\<rparr>))"

text \<open>\<open>task.stop(); activeTasks.delete(id)\<close> when the job has a handle.\<close>

definition stop_handle :: "cron_state \<Rightarrow> string \<Rightarrow> cron_state" where
  "stop_handle s jid =
     (case activeTasks s jid of
        None \<Rightarrow> s
      | Some h \<Rightarrow> s\<lparr>timers := (timers s)(h := None),
                     activeTasks := (activeTasks s)(jid := None)\<rparr>)"

text \<open>A new timer for the job, stored in \<open>activeTasks\<close>.\<close>

definition arm :: "cron_state \<Rightarrow> CronJob \<Rightarrow> cron_state" where
  "arm s job =
     (let h = next_timer s
      in s\<lparr>timers := (timers s)(h \<mapsto> job),
           activeTasks := (activeTasks s)(job_id job \<mapsto> h),
           next_timer := Suc h\<rparr>)"

text \<open>
  \<open>executeJob\<close>: \<open>pushOutcome\<close> is \<open>None\<close> when the push went through and the error
  otherwise. The result is \<open>(success, error)\<close>, or what the \<open>catch\<close> block itself threw.
\<close>

definition executeJob_catch ::
  "cron_lib \<Rightarrow> cron_state \<Rightarrow> CronJob \<Rightarrow> js_thrown \<Rightarrow> string \<Rightarrow> string \<Rightarrow>
   (js_thrown + bool \<times> string option) \<times> cron_state"
where
  "executeJob_catch lib s job err startedAt completedAt =
     (let errorMsg = errorMsg_of err;
          s1 = s\<lparr>cron_jobs :=
                   UPDATE_job (cron_jobs s) (job_id job)
                     (\<lambda>row. row\<lparr>job_last_run_at := Some completedAt,
                                  job_last_status := Some ''error'',
                                  job_last_error := Some (take 500 errorMsg),
                                  job_run_count := job_run_count row + 1\<rparr>)\<rparr>
      in (case INSERT_run lib s1 (job_id job) (job_name job) ''error''
                 (Some (take 500 errorMsg)) startedAt completedAt of
            Inl e \<Rightarrow> (Inl e, s1)
          | Inr s2 \<Rightarrow> (Inr (False, Some errorMsg), s2)))"

definition executeJob ::
  "cron_lib \<Rightarrow> cron_state \<Rightarrow> CronJob \<Rightarrow> js_thrown option \<Rightarrow> string \<Rightarrow> string \<Rightarrow>
   (js_thrown + bool \<times> string option) \<times> cron_state"
where
  "executeJob lib s job pushOutcome startedAt completedAt =
     (case pushOutcome of
        Some err \<Rightarrow> executeJob_catch lib s job err startedAt completedAt
      | None \<Rightarrow>
          (let s1 = s\<lparr>cron_jobs :=
                        UPDATE_job (cron_jobs s) (job_id job)
                          (\<lambda>row. row\<lparr>job_last_run_at := Some completedAt,
                                       job_last_status := Some ''success'',
                                       job_last_error := None,
                                       job_run_count := job_run_count row + 1\<rparr>)\<rparr>
           in (case INSERT_run lib s1 (job_id job) (job_name job) ''success'' None
                      startedAt completedAt of
                 Inl e \<Rightarrow> executeJob_catch lib s1 job e startedAt completedAt
               | Inr s2 \<Rightarrow>
                   if job_schedule_type job = Once \<or> job_delete_after_run job \<noteq> 0
                   then (Inr (True, None),
                         stop_handle
                           (if job_delete_after_run job \<noteq> 0
                            then DELETE_job lib s2 (job_id job)
                            else s2\<lparr>cron_jobs :=
                                      UPDATE_job (cron_jobs s2) (job_id job)
                                        (\<lambda>row. row\<lparr>job_enabled := 0\<rparr>)\<rparr>)
                           (job_id job))
                   else (Inr (True, None), s2))))"

text \<open>\<open>job.timezone || "Asia/Bangkok"\<close>\<close>

definition timezone_option :: "CronJob \<Rightarrow> string" where
  "timezone_option job = (if truthy (job_timezone job) then job_timezone job else ''Asia/Bangkok'')"

text \<open>
  \<open>scheduleJob\<close>: an existing handle is stopped first. For a one-shot job an invalid
  date gives the delay \<open>NaN\<close>, which is not \<open>\<le> 0\<close>, so the job is armed. For a
  recurring job \<open>cron.schedule\<close> may throw; then the old handle is gone, no new one is
  stored, and the error leaves \<open>scheduleJob\<close>.
\<close>

definition scheduleJob ::
  "cron_lib \<Rightarrow> cron_state \<Rightarrow> CronJob \<Rightarrow> int \<Rightarrow> (js_thrown + bool) \<times> cron_state"
where
  "scheduleJob lib s job nowMs =
     (let s1 = stop_handle s (job_id job)
      in if job_enabled job = 0 then (Inr False, s1)
         else if job_schedule_type job = Once
         then (case Date_parse lib (job_schedule job) of
                 None \<Rightarrow> (Inr True, arm s1 job)
               | Some targetTime \<Rightarrow>
                   if targetTime - nowMs \<le> 0 then (Inr False, s1) else (Inr True, arm s1 job))
         else if \<not> cron_validate lib (job_schedule job) then (Inr False, s1)
         else (case schedule_throws lib (job_schedule job) (timezone_option job) of
                 Some e \<Rightarrow> (Inl e, s1)
               | None \<Rightarrow> (Inr True, arm s1 job)))"


definition json_opt :: "string option \<Rightarrow> json" where
  "json_opt v = (case v of None \<Rightarrow> JNull | Some t \<Rightarrow> JStr t)"

definition formatJob :: "cron_state \<Rightarrow> CronJob \<Rightarrow> json" where
  "formatJob s j =
     JObj [(''id'', JStr (job_id j)),
           (''name'', JStr (job_name j)),
           (''schedule'', JStr (job_schedule j)),
           (''scheduleType'', JStr (case job_schedule_type j of Cron \<Rightarrow> ''cron'' | Once \<Rightarrow> ''once'')),
           (''message'', JStr (job_message j)),
           (''timezone'', JStr (job_timezone j)),
           (''enabled'', JBool (job_enabled j \<noteq> 0)),
           (''deleteAfterRun'', JBool (job_delete_after_run j \<noteq> 0)),
           (''runCount'', JNum (int (job_run_count j))),
           (''lastRunAt'', json_opt (job_last_run_at j)),
           (''lastStatus'', json_opt (job_last_status j)),
           (''lastError'', json_opt (job_last_error j)),
           (''createdAt'', JStr (job_created_at j)),
           (''isScheduled'', JBool (activeTasks s (job_id j) \<noteq> None))]"

definition error_payload :: "string \<Rightarrow> string \<Rightarrow> json" where
  "error_payload kind msg = JObj [(''error'', JStr kind), (''message'', JStr msg)]"

definition is_digit :: "char \<Rightarrow> bool" where
  "is_digit c = (c \<in> set ''0123456789'')"

text \<open>The test \<open>/^\d{4}-\d{2}-\d{2}/\<close>.\<close>

fun iso_date_like :: "string \<Rightarrow> bool" where
  "iso_date_like (y1 # y2 # y3 # y4 # h1 # m1 # m2 # h2 # d1 # d2 # rest) =
     (is_digit y1 \<and> is_digit y2 \<and> is_digit y3 \<and> is_digit y4 \<and> h1 = CHR ''-'' \<and>
      is_digit m1 \<and> is_digit m2 \<and> h2 = CHR ''-'' \<and> is_digit d1 \<and> is_digit d2)"
| "iso_date_like _ = False"


subsection \<open>The actions of \<open>cronTool.execute\<close>\<close>

text \<open>
  Each action returns the JSON value of its reply and the new state. \<open>newId\<close> is the
  random id, \<open>now\<close> the ISO time of \<open>new Date()\<close> and \<open>nowMs\<close> the clock \<open>Date.now()\<close>.
  What an action throws is caught by the \<open>try\<close> around the \<open>switch\<close> and reported as
  \<open>action_failed\<close>; what the action has written before the throw stays written.
\<close>

definition action_failed :: "string \<Rightarrow> js_thrown \<Rightarrow> json" where
  "action_failed action err =
     JObj [(''error'', JStr ''action_failed''), (''action'', JStr action),
           (''message'', JStr (errorMsg_of err))]"

text \<open>
  The block of \<open>add\<close> that detects the schedule type: the error reply, or the type.
\<close>

definition add_schedule_type :: "cron_lib \<Rightarrow> string \<Rightarrow> int \<Rightarrow> json + schedule_kind" where
  "add_schedule_type lib sched nowMs =
     (if iso_date_like sched
      then (case Date_parse lib sched of
              None \<Rightarrow> Inl (error_payload ''invalid_date'' (''Invalid datetime: '' @ sched))
            | Some d \<Rightarrow>
                if d \<le> nowMs
                then Inl (error_payload ''past_date'' ''Cannot schedule in the past.'')
                else Inr Once)
      else if \<not> cron_validate lib sched
      then Inl (error_payload ''invalid_schedule''
                  (''Invalid cron expression: '' @ [CHR 0x22] @ sched @ [CHR 0x22] @
                   ''. Examples: '' @ [CHR 0x22] @ ''0 8 * * *'' @ [CHR 0x22] @
                   '' (daily 8am), '' @ [CHR 0x22] @ ''*/30 * * * *'' @ [CHR 0x22] @
                   '' (every 30min).''))
      else Inr Cron)"

definition cronTool_add ::
  "cron_lib \<Rightarrow> cron_state \<Rightarrow> tool_input \<Rightarrow> ToolContext option \<Rightarrow> string \<Rightarrow> string \<Rightarrow> int \<Rightarrow>
   json \<times> cron_state"
where
  "cronTool_add lib s input ctx newId now nowMs =
     (let nm = str_field input ''name'' [];
          sched = str_field input ''schedule'' [];
          msg = str_field input ''message'' [];
          tz = str_field input ''timezone'' ''Asia/Bangkok'';
          deleteAfterRun = (input ''deleteAfterRun'' = Some (JBool True));
          targetUserId = (case map_option userId ctx of None \<Rightarrow> [] | Some u \<Rightarrow> u)
      in if \<not> truthy nm then (error_payload ''missing_name'' ''name is required.'', s)
         else if \<not> truthy sched
         then (error_payload ''missing_schedule'' ''schedule is required.'', s)
         else if \<not> truthy msg then (error_payload ''missing_message'' ''message is required.'', s)
         else if \<not> truthy targetUserId
         then (error_payload ''no_user'' ''No userId available.'', s)
         else (case add_schedule_type lib sched nowMs of
            Inl reply \<Rightarrow> (reply, s)
          | Inr scheduleType \<Rightarrow>
              (let job = \<lparr>job_id = newId, job_name = nm, job_schedule = sched,
                          job_schedule_type = scheduleType,
                          job_message = msg, job_target_user_id = targetUserId, job_timezone = tz,
                          job_enabled = 1,
                          job_delete_after_run = (if deleteAfterRun then 1 else 0),
                          job_run_count = 0, job_last_run_at = None, job_last_status = None,
                          job_last_error = None, job_created_at = now\<rparr>
               in if cron_jobs s newId \<noteq> None
                  then (action_failed ''add''
                          (ErrorObj ''SqliteError'' ''UNIQUE constraint failed: cron_jobs.id''), s)
                  else
                    (let s1 = s\<lparr>cron_jobs := (cron_jobs s)(newId \<mapsto> job)\<rparr>;
                         r = scheduleJob lib s1 job nowMs
                     in ((case fst r of
                            Inl e \<Rightarrow> action_failed ''add'' e
                          | Inr scheduled \<Rightarrow>
                              JObj [(''success'', JBool True), (''action'', JStr ''add''),
                                    (''job'', formatJob (snd r) job),
                                    (''scheduled'', JBool scheduled)]),
                         snd r)))))"

text \<open>
  The schedule part of \<open>update\<close>: the error reply, or the assignments to make (none when
  no schedule is given).
\<close>

definition update_schedule_patch ::
  "cron_lib \<Rightarrow> tool_input \<Rightarrow> json + (CronJob \<Rightarrow> CronJob) list"
where
  "update_schedule_patch lib input =
     (let newSchedule = str_field input ''schedule'' []
      in if \<not> truthy newSchedule then Inr []
         else if iso_date_like newSchedule
         then (if Date_parse lib newSchedule = None
               then Inl (error_payload ''invalid_date'' (''Invalid datetime: '' @ newSchedule))
               else Inr [\<lambda>row. row\<lparr>job_schedule := newSchedule, job_schedule_type := Once\<rparr>])
         else if \<not> cron_validate lib newSchedule
         then Inl (error_payload ''invalid_schedule''
                     (''Invalid cron expression: '' @ [CHR 0x22] @ newSchedule @ [CHR 0x22] @ ''.''))
         else Inr [\<lambda>row. row\<lparr>job_schedule := newSchedule, job_schedule_type := Cron\<rparr>])"

definition update_field_patch :: "tool_input \<Rightarrow> (CronJob \<Rightarrow> CronJob) list" where
  "update_field_patch input =
     (if truthy (str_field input ''name'' [])
      then [\<lambda>row. row\<lparr>job_name := str_field input ''name'' []\<rparr>] else []) @
     (if truthy (str_field input ''message'' [])
      then [\<lambda>row. row\<lparr>job_message := str_field input ''message'' []\<rparr>] else []) @
     (if truthy (str_field input ''timezone'' [])
      then [\<lambda>row. row\<lparr>job_timezone := str_field input ''timezone'' []\<rparr>] else []) @
     (case input ''enabled'' of
        Some (JBool b) \<Rightarrow> [\<lambda>row. row\<lparr>job_enabled := (if b then 1 else 0)\<rparr>]
      | _ \<Rightarrow> []) @
     (case input ''deleteAfterRun'' of
        Some (JBool b) \<Rightarrow> [\<lambda>row. row\<lparr>job_delete_after_run := (if b then 1 else 0)\<rparr>]
      | _ \<Rightarrow> [])"

definition not_found_payload :: "string \<Rightarrow> json" where
  "not_found_payload jobId =
     error_payload ''not_found''
       (''Job '' @ [CHR 0x22] @ jobId @ [CHR 0x22] @ '' not found.'')"

definition cronTool_update ::
  "cron_lib \<Rightarrow> cron_state \<Rightarrow> tool_input \<Rightarrow> int \<Rightarrow> json \<times> cron_state"
where
  "cronTool_update lib s input nowMs =
     (let jobId = str_field input ''jobId'' []
      in if \<not> truthy jobId then (error_payload ''missing_job_id'' ''jobId is required.'', s)
         else (case cron_jobs s jobId of
            None \<Rightarrow> (not_found_payload jobId, s)
          | Some existing \<Rightarrow>
              (case update_schedule_patch lib input of
                 Inl reply \<Rightarrow> (reply, s)
               | Inr schedulePatch \<Rightarrow>
                   (let updates = update_field_patch input @ schedulePatch
                    in if length updates = 0
                       then (error_payload ''no_changes''
                               ''No fields to update. Provide name, schedule, message, timezone, enabled, or deleteAfterRun.'',
                             s)
                       else
                         (let updated = fold (\<lambda>f row. f row) updates existing;
                              s1 = s\<lparr>cron_jobs := (cron_jobs s)(jobId \<mapsto> updated)\<rparr>;
                              r = scheduleJob lib s1 updated nowMs
                          in ((case fst r of
                                 Inl e \<Rightarrow> action_failed ''update'' e
                               | Inr scheduled \<Rightarrow>
                                   JObj [(''success'', JBool True), (''action'', JStr ''update''),
                                         (''job'', formatJob (snd r) updated)]),
                              snd r))))))"






subsection \<open>Handles and rows\<close>

text \<open>
  The relation between the in-memory handles and the rows: every row is stored under
  its own id; a job id has a handle only if its row exists and is enabled; every live
  timer is the handle registered for the job it has captured (so a job id never has two
  live timers), and was allocated before the next timer reference.
\<close>

definition rows_keyed :: "(string \<Rightarrow> CronJob option) \<Rightarrow> bool" where
  "rows_keyed tbl = (\<forall>k j. tbl k = Some j \<longrightarrow> job_id j = k)"

definition row_enabled :: "(string \<Rightarrow> CronJob option) \<Rightarrow> string \<Rightarrow> bool" where
  "row_enabled tbl jid = (\<exists>j. tbl jid = Some j \<and> job_enabled j \<noteq> 0)"

definition handles_enabled :: "cron_state \<Rightarrow> bool" where
  "handles_enabled s =
     (\<forall>jid h. activeTasks s jid = Some h \<longrightarrow> row_enabled (cron_jobs s) jid)"

definition timers_registered :: "cron_state \<Rightarrow> bool" where
  "timers_registered s =
     ((\<forall>h j. timers s h = Some j \<longrightarrow> activeTasks s (job_id j) = Some h) \<and>
      (\<forall>h j. timers s h = Some j \<longrightarrow> h < next_timer s))"

definition cron_inv :: "cron_state \<Rightarrow> bool" where
  "cron_inv s = (rows_keyed (cron_jobs s) \<and> handles_enabled s \<and> timers_registered s)"

text \<open>
  Whether \<open>scheduleJob\<close> arms an enabled job at the time \<open>nowMs\<close>: a one-shot time that
  is not in the past, or a valid cron expression with a time zone that \<open>cron.schedule\<close>
  accepts.
\<close>

definition armable :: "cron_lib \<Rightarrow> CronJob \<Rightarrow> int \<Rightarrow> bool" where
  "armable lib job nowMs =
     (if job_schedule_type job = Once
      then (case Date_parse lib (job_schedule job) of None \<Rightarrow> True | Some t \<Rightarrow> nowMs < t)
      else cron_validate lib (job_schedule job) \<and>
           schedule_throws lib (job_schedule job) (timezone_option job) = None)"

definition same_handles :: "cron_state \<Rightarrow> cron_state \<Rightarrow> bool" where
  "same_handles s s' =
     (activeTasks s' = activeTasks s \<and> timers s' = timers s \<and> next_timer s' = next_timer s)"


subsection \<open>Scenarios\<close>

text \<open>
  A library in which \<open>0 8 * * *\<close> is the one valid cron expression, \<open>Asia/Bangkok\<close> and
  \<open>UTC\<close> are the time zones known, and two dates parse, one before and one after the
  clock of the scenarios (1 January 2026). User \<open>U1\<close> adds a daily job; or a daily job
  that is deleted after its run; or a one-shot job for 2030, which fires then and is
  woken afterwards; or a daily job in a time zone that does not exist.
\<close>

definition test_cron_lib :: cron_lib where
  "test_cron_lib =
     \<lparr>cron_validate = (\<lambda>e. e = ''0 8 * * *''),
      schedule_throws =
        (\<lambda>e z. if z = ''Asia/Bangkok'' \<or> z = ''UTC'' then None
                else Some (ErrorObj ''RangeError'' (''Invalid time zone specified: '' @ z))),
      Date_parse = (\<lambda>t. if t = ''2020-01-01T00:00'' then Some 1577811600000
                         else if t = ''2030-01-01T00:00'' then Some 1893430800000
                         else None),
      foreign_keys = True\<rparr>"

definition add_input :: "string \<Rightarrow> bool \<Rightarrow> tool_input" where
  "add_input sched del =
     [''action'' \<mapsto> JStr ''add'', ''name'' \<mapsto> JStr ''standup'', ''schedule'' \<mapsto> JStr sched,
      ''message'' \<mapsto> JStr ''Stand-up time'', ''deleteAfterRun'' \<mapsto> JBool del]"

definition added_job :: "string \<Rightarrow> schedule_kind \<Rightarrow> nat \<Rightarrow> CronJob" where
  "added_job sched kind del =
     \<lparr>job_id = ''j1'', job_name = ''standup'', job_schedule = sched,
      job_schedule_type = kind, job_message = ''Stand-up time'',
      job_target_user_id = ''U1'', job_timezone = ''Asia/Bangkok'', job_enabled = 1,
      job_delete_after_run = del, job_run_count = 0, job_last_run_at = None,
      job_last_status = None, job_last_error = None,
      job_created_at = ''2026-01-01T00:00:00.000Z''\<rparr>"

definition state_after_add :: "string \<Rightarrow> bool \<Rightarrow> cron_state" where
  "state_after_add sched del =
     snd (cronTool_add test_cron_lib initial_cron_state (add_input sched del)
            (Some \<lparr>userId = ''U1''\<rparr>) ''j1'' ''2026-01-01T00:00:00.000Z'' 1767225600000)"

definition standup_state :: cron_state where
  "standup_state = state_after_add ''0 8 * * *'' False"

definition reminder_state :: cron_state where
  "reminder_state = state_after_add ''0 8 * * *'' True"




definition zoned_state :: "(json \<times> cron_state)" where
  "zoned_state =
     cronTool_add test_cron_lib initial_cron_state
       ((add_input ''0 8 * * *'' False)(''timezone'' \<mapsto> JStr ''Mars/Olympus''))
       (Some \<lparr>userId = ''U1''\<rparr>) ''j1'' ''2026-01-01T00:00:00.000Z'' 1767225600000"

fun json_field :: "string \<Rightarrow> json \<Rightarrow> json option" where
  "json_field k (JObj kvs) = map_of kvs k"
| "json_field k _ = None"


section \<open>Properties of the tool registry\<close>











section \<open>Properties of the owner check\<close>

lemma isOwner_unset: "\<not> env_set (OWNER_USER_ID env) \<Longrightarrow> isOwner env uid"
  by (auto simp: isOwner_def env_set_def split: option.splits)

lemma isOwner_set:
  "OWNER_USER_ID env = Some v \<Longrightarrow> truthy (trim v) \<Longrightarrow>
   isOwner env uid =
     (case uid of None \<Rightarrow> False
      | Some u \<Rightarrow> u \<noteq> [] \<and> u \<in> set (map trim (split_on CHR '','' (trim v))))"
  by (auto simp: isOwner_def truthy_def split: option.splits)

text \<open>
  Among the code units below 256, \<open>trim\<close> strips the six ASCII white-space characters
  and the no-break space. A list entry padded with no-break spaces names the user, and a
  variable holding nothing but a no-break space counts as blank.
\<close>

lemma js_white_space_latin1:
  "u < 256 \<Longrightarrow> js_white_space u = (u \<in> {0x09, 0x0A, 0x0B, 0x0C, 0x0D, 0x20, 0xA0})"
  by (auto simp: js_white_space_def)

lemma trim_no_break_space:
  "trim ([CHR 0xA0] @ ''U1'' @ [CHR 0xA0, CHR 0x09]) = ''U1'' \<and> trim [CHR 0xA0] = []"
  by (simp add: trim_def is_ws_def js_white_space_def)

lemma isOwner_no_break_space:
  "isOwner (env\<lparr>OWNER_USER_ID := Some ([CHR 0xA0] @ ''U1'' @ [CHR 0xA0])\<rparr>) (Some ''U1'') \<and>
   \<not> isOwner (env\<lparr>OWNER_USER_ID := Some ([CHR 0xA0] @ ''U1'' @ [CHR 0xA0])\<rparr>) (Some ''U2'') \<and>
   isOwner (env\<lparr>OWNER_USER_ID := Some [CHR 0xA0]\<rparr>) (Some ''U2'')"
  by (simp add: isOwner_def trim_def is_ws_def js_white_space_def truthy_def)

text \<open>
  C10. With \<open>OWNER_USER_ID\<close> unset or blank the owner check passes for every caller,
  also one without a user id. With it set, a caller passes iff the caller's user id is
  one of the trimmed entries of the comma-separated list (a caller always has a
  non-empty user id: the webhook handler drops events without one; a missing or empty
  id is rejected). A caller who does not pass gets the \<open>forbidden\<close> payload from both
  tools and the guarded action is not run; a caller who passes gets the action's result.
\<close>

theorem owner_only_tools:
  "(\<not> env_set (OWNER_USER_ID env) \<longrightarrow> isOwner env uid) \<and>
   (\<forall>v. OWNER_USER_ID env = Some v \<and> truthy (trim v) \<longrightarrow>
        \<not> isOwner env None \<and>
        (\<forall>u. u \<noteq> [] \<longrightarrow>
             isOwner env (Some u) = (u \<in> set (map trim (split_on CHR '','' (trim v)))))) \<and>
   (\<not> isOwner env (map_option userId ctx) \<longrightarrow>
        gatewayTool_execute env actions input ctx =
          JObj [(''error'', JStr ''forbidden''),
                (''message'', JStr ''This tool is restricted to the bot owner.'')] \<and>
        sessionsSendTool_execute env send input ctx =
          JObj [(''error'', JStr ''forbidden''),
                (''message'', JStr ''sessions_send is restricted to the bot owner.'')]) \<and>
   (isOwner env (map_option userId ctx) \<longrightarrow>
        gatewayTool_execute env actions input ctx =
          actions (str_field input ''action'' []) input ctx \<and>
        sessionsSendTool_execute env send input ctx = send input ctx)"
  by (auto simp: isOwner_unset isOwner_set gatewayTool_execute_def sessionsSendTool_execute_def)

theorem owner_only_tools_witness:
  "isOwner \<lparr>GEMINI_API_KEY = None, GEMINI_MODEL = None, OLLAMA_MODEL = None,
             ANTHROPIC_API_KEY = None, OWNER_USER_ID = None\<rparr> (Some ''U3'') \<and>
   isOwner \<lparr>GEMINI_API_KEY = None, GEMINI_MODEL = None, OLLAMA_MODEL = None,
             ANTHROPIC_API_KEY = None, OWNER_USER_ID = Some ''U1, U2''\<rparr> (Some ''U2'') \<and>
   \<not> isOwner \<lparr>GEMINI_API_KEY = None, GEMINI_MODEL = None, OLLAMA_MODEL = None,
             ANTHROPIC_API_KEY = None, OWNER_USER_ID = Some ''U1, U2''\<rparr> (Some ''U3'') \<and>
   gatewayTool_execute \<lparr>GEMINI_API_KEY = None, GEMINI_MODEL = None, OLLAMA_MODEL = None,
             ANTHROPIC_API_KEY = None, OWNER_USER_ID = Some ''U1, U2''\<rparr>
        (\<lambda>a i c. JStr a) [''action'' \<mapsto> JStr ''restart''] (Some \<lparr>userId = ''U3''\<rparr>)
     = JObj [(''error'', JStr ''forbidden''),
             (''message'', JStr ''This tool is restricted to the bot owner.'')] \<and>
   sessionsSendTool_execute \<lparr>GEMINI_API_KEY = None, GEMINI_MODEL = None, OLLAMA_MODEL = None,
             ANTHROPIC_API_KEY = None, OWNER_USER_ID = Some ''U1, U2''\<rparr>
        (\<lambda>i c. JBool True) Map.empty (Some \<lparr>userId = ''U2''\<rparr>)
     = JBool True"
proof -
  let ?e0 = "\<lparr>GEMINI_API_KEY = None, GEMINI_MODEL = None, OLLAMA_MODEL = None,
             ANTHROPIC_API_KEY = None, OWNER_USER_ID = None\<rparr>"
  let ?e1 = "\<lparr>GEMINI_API_KEY = None, GEMINI_MODEL = None, OLLAMA_MODEL = None,
             ANTHROPIC_API_KEY = None, OWNER_USER_ID = Some ''U1, U2''\<rparr>"
  have unset: "\<not> env_set (OWNER_USER_ID ?e0)"
    by (simp add: env_set_def)
  have isset: "OWNER_USER_ID ?e1 = Some ''U1, U2'' \<and> truthy (trim ''U1, U2'')"
    by (simp add: truthy_def trim_def is_ws_def js_white_space_def)
  have entries: "map trim (split_on CHR '','' (trim ''U1, U2'')) = [''U1'', ''U2'']"
    by (simp add: trim_def is_ws_def js_white_space_def)
  have a: "isOwner ?e0 (Some ''U3'')"
    using owner_only_tools [of ?e0 "Some ''U3''"] unset by blast
  have "\<forall>v. OWNER_USER_ID ?e1 = Some v \<and> truthy (trim v) \<longrightarrow>
          (\<forall>u. u \<noteq> [] \<longrightarrow>
             isOwner ?e1 (Some u) = (u \<in> set (map trim (split_on CHR '','' (trim v)))))"
    using owner_only_tools [of ?e1 None None "\<lambda>a i c. JNull" Map.empty "\<lambda>i c. JNull"]
    by blast
  with isset have "\<forall>u. u \<noteq> [] \<longrightarrow>
      isOwner ?e1 (Some u) = (u \<in> set (map trim (split_on CHR '','' (trim ''U1, U2''))))"
    by blast
  then have mem: "\<forall>u. u \<noteq> [] \<longrightarrow> isOwner ?e1 (Some u) = (u \<in> set [''U1'', ''U2''])"
    by (simp only: entries)
  have b: "isOwner ?e1 (Some ''U2'')"
    using mem by simp
  have c: "\<not> isOwner ?e1 (Some ''U3'')"
    using mem by simp
  have "\<not> isOwner ?e1 (map_option userId (Some \<lparr>userId = ''U3''\<rparr>))"
    using c by simp
  then have d: "gatewayTool_execute ?e1 (\<lambda>a i c. JStr a) [''action'' \<mapsto> JStr ''restart'']
             (Some \<lparr>userId = ''U3''\<rparr>)
           = JObj [(''error'', JStr ''forbidden''),
                   (''message'', JStr ''This tool is restricted to the bot owner.'')]"
    using owner_only_tools [of ?e1 None "Some \<lparr>userId = ''U3''\<rparr>" "\<lambda>a i c. JStr a"
        "[''action'' \<mapsto> JStr ''restart'']" "\<lambda>i c. JNull"]
    by blast
  have "isOwner ?e1 (map_option userId (Some \<lparr>userId = ''U2''\<rparr>))"
    using b by simp
  then have e: "sessionsSendTool_execute ?e1 (\<lambda>i c. JBool True) Map.empty (Some \<lparr>userId = ''U2''\<rparr>)
           = JBool True"
    using owner_only_tools [of ?e1 None "Some \<lparr>userId = ''U2''\<rparr>" "\<lambda>a i c. JNull"
        Map.empty "\<lambda>i c. JBool True"]
    by blast
  from a b c d e show ?thesis by blast
qed


section \<open>Properties of the agent loop\<close>

lemma findTool_in_registry: "findTool allTools nm = Some tool \<Longrightarrow> tool \<in> set allTools"
  by (auto simp: findTool_def find_Some_iff)

lemma printable_throws_Nil: "printable_throws []"
  by (simp add: printable_throws_def)

lemma executeTool_returns:
  assumes "printable_throws allTools"
  shows "\<exists>s. executeTool allTools nm input ctx = Inr s"
proof (cases "findTool allTools nm")
  case None
  then show ?thesis by (simp add: executeTool_def)
next
  case (Some tool)
  show ?thesis
  proof (cases "tool_execute tool input ctx")
    case (Inr s)
    with Some show ?thesis by (simp add: executeTool_def)
  next
    case (Inl err)
    with assms findTool_in_registry [OF Some] obtain t where "template_of err = Inr t"
      unfolding printable_throws_def by blast
    with Some Inl show ?thesis by (simp add: executeTool_def)
  qed
qed

lemma gemini_run_calls_returns:
  assumes pt: "printable_throws allTools"
  shows "\<exists>rs. gemini_run_calls allTools uid ps = Inr rs"
proof (induction ps)
  case Nil
  show ?case by simp
next
  case (Cons p ps)
  then obtain rs where rs: "gemini_run_calls allTools uid ps = Inr rs" by blast
  show ?case
  proof (cases "part_functionCall p")
    case None
    with rs show ?thesis by simp
  next
    case (Some fc)
    obtain nm args where fc: "fc = (nm, args)" by (cases fc)
    obtain s where "executeTool allTools nm (input_of args) (Some \<lparr>userId = uid\<rparr>) = Inr s"
      using executeTool_returns [OF pt] by blast
    with Some fc rs show ?thesis by simp
  qed
qed

text \<open>The Gemini loop asks the model at most \<open>maxLoops\<close> more times.\<close>

lemma gemini_loop_turns:
  "snd (gemini_loop allTools fetch sp uid gt n contents turns) \<le> turns + n"
proof (induction n arbitrary: contents turns)
  case 0
  show ?case by simp
next
  case (Suc n)
  have IH': "snd (gemini_loop allTools fetch sp uid gt n c (Suc turns)) \<le> Suc (turns + n)" for c
    using Suc.IH [of c "Suc turns"] by simp
  show ?case
    using IH' by (auto simp: Let_def split: gemini_reply.split option.split sum.split)
qed

lemma chatGemini_at_most_10:
  "snd (chatGemini allTools fetch message dbHistory sp uid media) \<le> 10"
  unfolding chatGemini_def Let_def
  using gemini_loop_turns [of allTools fetch sp uid _ 10 _ 0] by simp

lemma gemini_loop_always_calls:
  assumes "gemini_always_calls fetch" and pt: "printable_throws allTools"
  shows "gemini_loop allTools fetch sp uid gt n contents turns = (Inr [], turns + n)"
proof (induction n arbitrary: contents turns)
  case 0
  show ?case by simp
next
  case (Suc n)
  let ?req = "\<lparr>g_systemInstruction = sp, g_contents = contents, g_tools = gt\<rparr>"
  from assms(1) obtain parts where p: "fetch ?req = GeminiJson (Some parts)"
      "filter (\<lambda>p. part_functionCall p \<noteq> None) parts \<noteq> []"
    unfolding gemini_always_calls_def by blast
  obtain rs where rs: "gemini_run_calls allTools uid
      (filter (\<lambda>p. part_functionCall p \<noteq> None) parts) = Inr rs"
    using gemini_run_calls_returns [OF pt] by blast
  show ?case
    using p rs Suc.IH by (simp add: Let_def)
qed

text \<open>
  With a Gemini adapter that always asks for a tool, \<open>chatGemini\<close> stops after exactly
  10 model calls and returns the fallback text.
\<close>

lemma chatGemini_turn_budget:
  assumes "gemini_always_calls fetch" and "printable_throws allTools"
  shows "chatGemini allTools fetch message dbHistory sp uid media = (Inr ''(no response)'', 10)"
  unfolding chatGemini_def Let_def
  by (simp add: gemini_loop_always_calls [OF assms] or_no_response_def truthy_def
      del: gemini_loop.simps)

lemma ollama_run_calls_returns:
  assumes pt: "printable_throws allTools"
  shows "list_all (\<lambda>tc. JSON_parse rt (tc_arguments tc) \<noteq> None) tcs \<Longrightarrow>
   \<exists>rs. ollama_run_calls allTools rt uid tcs = Inr rs"
proof (induction tcs)
  case Nil
  show ?case by simp
next
  case (Cons tc tcs)
  then obtain rs where rs: "ollama_run_calls allTools rt uid tcs = Inr rs" by auto
  from Cons.prems obtain args where args: "JSON_parse rt (tc_arguments tc) = Some args" by auto
  obtain s where "executeTool allTools (tc_name tc) (input_of args) (Some \<lparr>userId = uid\<rparr>) = Inr s"
    using executeTool_returns [OF pt] by blast
  with rs args show ?case by simp
qed

lemma ollama_loop_turns:
  "snd (ollama_loop allTools rt fetch uid ot n messages turns) \<le> turns + n"
proof (induction n arbitrary: messages turns)
  case 0
  show ?case by simp
next
  case (Suc n)
  have IH': "snd (ollama_loop allTools rt fetch uid ot n c (Suc turns)) \<le> Suc (turns + n)" for c
    using Suc.IH [of c "Suc turns"] by simp
  show ?case
    using IH'
    by (auto simp: Let_def split: ollama_reply.split option.split sum.split prod.split)
qed

lemma ollama_loop_always_calls:
  assumes "ollama_always_calls rt fetch" and pt: "printable_throws allTools"
  shows "ollama_loop allTools rt fetch uid ot n messages turns = (Inr [], turns + n)"
proof (induction n arbitrary: messages turns)
  case 0
  show ?case by simp
next
  case (Suc n)
  let ?req = "\<lparr>o_messages = messages, o_tools = ot\<rparr>"
  from assms(1) obtain m tcs where m: "fetch ?req = OllamaJson (Some m)" "om_tool_calls m = Some tcs"
      "tcs \<noteq> []" "list_all (\<lambda>tc. JSON_parse rt (tc_arguments tc) \<noteq> None) tcs"
    unfolding ollama_always_calls_def by blast
  obtain rs where rs: "ollama_run_calls allTools rt uid tcs = Inr rs"
    using ollama_run_calls_returns [OF pt m(4)] by blast
  show ?case
    using m rs Suc.IH by (simp add: Let_def)
qed

lemma chatOllama_turn_budget:
  assumes "ollama_always_calls rt fetch" and "printable_throws allTools"
  shows "chatOllama allTools rt fetch message dbHistory sp uid = (Inr ''(no response)'', 10)"
  unfolding chatOllama_def Let_def
  by (simp add: ollama_loop_always_calls [OF assms] or_no_response_def truthy_def
      del: ollama_loop.simps)

lemma anthropic_run_calls_returns:
  assumes pt: "printable_throws allTools"
  shows "\<exists>rs. anthropic_run_calls allTools uid bs = Inr rs"
proof (induction bs)
  case Nil
  show ?case by simp
next
  case (Cons b bs)
  then obtain rs where rs: "anthropic_run_calls allTools uid bs = Inr rs" by blast
  show ?case
  proof (cases b)
    case (ToolUseBlock bid nm inp)
    obtain s where "executeTool allTools nm (input_of inp) (Some \<lparr>userId = uid\<rparr>) = Inr s"
      using executeTool_returns [OF pt] by blast
    with ToolUseBlock rs show ?thesis by simp
  qed (use rs in simp_all)
qed

text \<open>
  The Anthropic loop has no such bound: against an adapter whose every response stops
  with \<open>tool_use\<close>, no result is ever produced.
\<close>

lemma anthropic_loop_no_result:
  assumes r: "anthropic_loop allTools create sp uid history turns = Some r"
  shows "\<not> (always_tool_use create \<and> printable_throws allTools)"
  apply (rule anthropic_loop.raw_induct
      [where P = "\<lambda>allTools create sp uid history turns r.
                    \<not> (always_tool_use create \<and> printable_throws allTools)", OF _ r])
  subgoal premises prems for loop allTools create sp uid history turns r
  proof
    assume both: "always_tool_use create \<and> printable_throws allTools"
    let ?req = "\<lparr>a_system = sp, a_tools = getToolDefinitions allTools, a_messages = history\<rparr>"
    from both obtain response
      where resp: "create ?req = Inr response" "stop_reason response = ''tool_use''"
      unfolding always_tool_use_def by blast
    from both obtain toolResults
      where tr: "anthropic_run_calls allTools uid (msg_content response) = Inr toolResults"
      using anthropic_run_calls_returns by blast
    from prems(2) resp tr
    have "loop allTools create sp uid
            ((history @ [(''assistant'', BlockContent (msg_content response))]) @
               [(''user'', BlockContent toolResults)]) (Suc turns) = Some r"
      by (simp add: Let_def)
    then have "\<not> (always_tool_use create \<and> printable_throws allTools)"
      by (rule prems(1))
    with both show False by blast
  qed
  done

lemma anthropic_loop_never_returns:
  assumes "always_tool_use create" and "printable_throws allTools"
  shows "anthropic_loop allTools create sp uid history turns = None"
proof (cases "anthropic_loop allTools create sp uid history turns")
  case None
  then show ?thesis .
next
  case (Some r)
  with assms anthropic_loop_no_result [of allTools create sp uid history turns r]
  show ?thesis by blast
qed

lemma chatAnthropic_never_returns:
  assumes "always_tool_use create" and "printable_throws allTools"
  shows "chatAnthropic allTools create message dbHistory sp uid media = None"
  unfolding chatAnthropic_def Let_def
  by (simp add: anthropic_loop_never_returns [OF assms])

text \<open>
  C1. The budget of 10 model turns holds for \<open>chatGemini\<close> and \<open>chatOllama\<close>
  (\<open>chatGemini_turn_budget\<close>, \<open>chatOllama_turn_budget\<close>, for tools whose handlers throw
  nothing but values that convert to a string), but not under every provider:
  \<open>chatAnthropic\<close>, given the adapter that answers every request with one tool call and
  the stop reason \<open>tool_use\<close>, never returns, so it neither stops after 10 turns nor
  yields a fallback text.
\<close>

theorem chatAnthropic_unbounded:
  "chatAnthropic [] scripted_tool_use ''hi'' [] ''system'' ''U1'' None = None"
  by (rule chatAnthropic_never_returns)
    (simp_all add: always_tool_use_def scripted_tool_use_def printable_throws_Nil)


section \<open>Properties of the provider fallback\<close>

lemma gemini_loop_numeral:
  "gemini_loop allTools fetch sp uid gt (numeral k) contents turns =
     gemini_loop allTools fetch sp uid gt (Suc (pred_numeral k)) contents turns"
  by (simp only: numeral_eq_Suc)

lemma ollama_loop_numeral:
  "ollama_loop allTools rt fetch uid ot (numeral k) messages turns =
     ollama_loop allTools rt fetch uid ot (Suc (pred_numeral k)) messages turns"
  by (simp only: numeral_eq_Suc)

lemmas gemini_loop_unfold = gemini_loop_numeral [unfolded gemini_loop.simps(2)]

lemmas ollama_loop_unfold = ollama_loop_numeral [unfolded ollama_loop.simps(2)]

lemma chatGemini_quota:
  "fst (chatGemini [] gemini_quota_exceeded msg [] ''system'' ''U1'' media)
     = Inl (new_Error ''Gemini API error: 429 quota'')"
  by (simp add: gemini_loop_unfold chatGemini_def gemini_quota_exceeded_def
      getToolDefinitions_def slice_last_def Let_def new_Error_def digit_char_def
      string_of_nat.simps)

lemma chatOllama_hello:
  "fst (chatOllama [] no_runtime ollama_says_hello ''what is this'' [] ''system'' ''U1'')
     = Inr ''hello''"
  by (simp add: ollama_loop_unfold chatOllama_def ollama_says_hello_def getToolDefinitions_def
      slice_last_def Let_def parseToolCallFromText_def no_runtime_def truthy_def
      or_no_response_def)

lemma AI_PROVIDER_env_gemini_ollama:
  "AI_PROVIDER env_gemini_ollama = ProviderGemini \<and> env_set (OLLAMA_MODEL env_gemini_ollama)"
  by (simp add: AI_PROVIDER_def env_gemini_ollama_def env_set_def truthy_def trim_def is_ws_def js_white_space_def)

text \<open>
  C4, as stated, fails: the turn below carries an image, the Gemini call fails with a
  quota error, and \<open>chat\<close> still answers with the reply of Ollama, the secondary
  provider.
\<close>

theorem chat_media_fallback_counterexample:
  "fst (chatGemini [] gemini_quota_exceeded ''what is this'' [] ''system'' ''U1''
          (Some \<lparr>mimeType = ''image/png'', buffer = ''PNG''\<rparr>))
     = Inl (new_Error ''Gemini API error: 429 quota'') \<and>
   chat env_gemini_ollama [] no_runtime
        \<lparr>gemini_fetch = gemini_quota_exceeded, ollama_fetch = ollama_says_hello,
         anthropic_create = scripted_tool_use\<rparr>
        [] ''system'' ''U1'' ''what is this'' (Some \<lparr>mimeType = ''image/png'', buffer = ''PNG''\<rparr>)
     = Some (Inr (Reply ''hello''))"
  by (simp add: chat_def chatGemini_quota chatOllama_hello AI_PROVIDER_env_gemini_ollama)

text \<open>
  C4, as amended. When Gemini is the primary provider and its call fails, \<open>chat\<close>
  retries the text of the same user turn against Ollama whenever \<open>OLLAMA_MODEL\<close> is
  configured, whether or not the turn carries media; the media is not handed to the
  secondary provider (\<open>chatOllama\<close> takes none). With no secondary provider configured
  the error of the primary call propagates.
\<close>

theorem chat_gemini_fallback:
  assumes "AI_PROVIDER env = ProviderGemini"
    and "fst (chatGemini allTools (gemini_fetch ps) message dbHistory sp uid media) = Inl err"
  shows "chat env allTools rt ps dbHistory sp uid message media =
           (if env_set (OLLAMA_MODEL env)
            then Some (map_sum id Reply
                   (fst (chatOllama allTools rt (ollama_fetch ps) message dbHistory sp uid)))
            else Some (Inl err))"
  using assms by (simp add: chat_def)

theorem chat_gemini_fallback_witness:
  "AI_PROVIDER env_gemini_ollama = ProviderGemini \<and>
   fst (chatGemini [] gemini_quota_exceeded ''what is this'' [] ''system'' ''U1''
          (Some \<lparr>mimeType = ''audio/m4a'', buffer = ''M4A''\<rparr>))
     = Inl (new_Error ''Gemini API error: 429 quota'') \<and>
   chat env_gemini_ollama [] no_runtime
        \<lparr>gemini_fetch = gemini_quota_exceeded, ollama_fetch = ollama_says_hello,
         anthropic_create = scripted_tool_use\<rparr>
        [] ''system'' ''U1'' ''what is this'' (Some \<lparr>mimeType = ''audio/m4a'', buffer = ''M4A''\<rparr>)
     = Some (Inr (Reply ''hello''))"
proof -
  let ?ps = "\<lparr>gemini_fetch = gemini_quota_exceeded, ollama_fetch = ollama_says_hello,
         anthropic_create = scripted_tool_use\<rparr>"
  let ?media = "Some \<lparr>mimeType = ''audio/m4a'', buffer = ''M4A''\<rparr>"
  have p: "AI_PROVIDER env_gemini_ollama = ProviderGemini"
    using AI_PROVIDER_env_gemini_ollama by blast
  have f: "fst (chatGemini [] (gemini_fetch ?ps) ''what is this'' [] ''system'' ''U1'' ?media)
             = Inl (new_Error ''Gemini API error: 429 quota'')"
    by (simp add: chatGemini_quota)
  from chat_gemini_fallback [OF p f, of no_runtime]
  have "chat env_gemini_ollama [] no_runtime ?ps [] ''system'' ''U1'' ''what is this'' ?media
          = Some (Inr (Reply ''hello''))"
    by (simp add: AI_PROVIDER_env_gemini_ollama chatOllama_hello)
  with p f show ?thesis by simp
qed


section \<open>Properties of the background tasks\<close>

lemma getActiveProvider_env_gemini_ollama:
  "fst (getActiveProvider env_gemini_ollama) = ''gemini''"
  by (simp add: getActiveProvider_def env_gemini_ollama_def env_set_def truthy_def trim_def
      is_ws_def js_white_space_def)

lemma spawned_state_eq:
  "spawned_state =
     \<lparr>background_tasks =
        [''t1'' \<mapsto> \<lparr>bt_id = ''t1'', bt_label = ''research the topic'',
                      bt_task = ''research the topic'', bt_status = Running, bt_result = None,
                      bt_model = None, bt_user_id = ''U1'',
                      bt_created_at = ''2026-01-01T00:00:00.000Z'', bt_completed_at = None\<rparr>],
      runningTasks =
        [(''t1'', \<lparr>re_task = \<lparr>bt_id = ''t1'', bt_label = ''research the topic'',
                      bt_task = ''research the topic'', bt_status = Running, bt_result = None,
                      bt_model = None, bt_user_id = ''U1'',
                      bt_created_at = ''2026-01-01T00:00:00.000Z'', bt_completed_at = None\<rparr>,
                   re_abortController = 0, re_startedAt = 0\<rparr>)],
      signal_aborted = (\<lambda>r. False)(0 := False),
      timeout_armed = (\<lambda>r. False)(0 := True),
      suspended = [''t1'' \<mapsto> \<lparr>sb_userId = ''U1'', sb_signal = 0, sb_phase = AwaitingModel\<rparr>],
      next_controller = Suc 0\<rparr>"
  by (simp add: spawned_state_def spawn_as_def sessionsSpawnTool_execute_def launch_task_def
      executeBackgroundTask_def getActiveProvider_env_gemini_ollama initial_task_state_def
      str_field_def truthy_def trim_def is_ws_def js_white_space_def MAX_CHILDREN_def Let_def)

text \<open>
  The explicit cancel does both things in one step: it removes the entry and marks the
  row \<open>cancelled\<close>.
\<close>

lemma cancelTask_marks_cancelled:
  assumes "map_of (runningTasks s) taskId = Some running"
    and "background_tasks s taskId = Some row"
  shows "fst (cancelTask s taskId now) \<and>
         map_of (runningTasks (snd (cancelTask s taskId now))) taskId = None \<and>
         map_option bt_status (background_tasks (snd (cancelTask s taskId now)) taskId)
           = Some Cancelled"
  using assms by (simp add: cancelTask_def UPDATE_task_def delete_conv)

text \<open>
  C3. An entry of \<open>runningTasks\<close> should exist for a task iff its row has the status
  \<open>running\<close>, every way out of \<open>running\<close> removing the entry and setting the row's
  terminal status in the same step. The timeout breaks this: after the spawn the task
  has an entry and a row with status \<open>running\<close>; once the timeout has aborted the
  controller and the model call has rejected, the \<open>catch\<close> block sees the aborted
  signal and returns without touching the row, and \<open>finally\<close> removes the entry. The
  handle is gone and the persisted status is still \<open>running\<close>, not \<open>cancelled\<close>.
\<close>

theorem timeout_leaves_row_running:
  "map_of (runningTasks spawned_state) ''t1'' \<noteq> None \<and>
   map_option bt_status (background_tasks spawned_state ''t1'') = Some Running \<and>
   map_of (runningTasks timed_out_state) ''t1'' = None \<and>
   map_option bt_status (background_tasks timed_out_state ''t1'') = Some Running"
  by (simp add: timed_out_state_def spawned_state_eq timeout_fires_def
      executeBackgroundTask_after_model_def body_catch_def body_finally_def)

lemma count_user_running:
  "length (filter (\<lambda>(k, entry). bt_user_id (re_task entry) = uid) (runningTasks s)) \<ge> 5 \<Longrightarrow>
   sessionsSpawnTool_execute env s input (Some \<lparr>userId = uid\<rparr>) newId now nowMs =
     (if \<not> truthy (str_field input ''task'' [])
      then (Inr (JObj [(''error'', JStr ''missing_task''),
                       (''message'', JStr ''task is required.'')]), s)
      else if \<not> truthy uid
      then (Inr (JObj [(''error'', JStr ''no_user''),
                       (''message'', JStr ''No userId available.'')]), s)
      else (Inr (JObj [(''error'', JStr ''limit_exceeded''),
                 (''message'', JStr ''Maximum 5 concurrent tasks per user. Use subagents tool to manage existing tasks.'')]),
            s))"
  by (simp add: sessionsSpawnTool_execute_def MAX_CHILDREN_def Let_def string_of_nat.simps
      digit_char_def)

lemma spawn_as_eq:
  assumes "length (filter (\<lambda>(k, entry). bt_user_id (re_task entry) = ''U1'') (runningTasks s)) < 5"
    and "background_tasks s newId = None"
  shows "spawn_as newId s =
     s\<lparr>background_tasks := (background_tasks s)(newId \<mapsto> research_task newId),
       runningTasks := AList.update newId
             \<lparr>re_task = research_task newId,
               re_abortController = next_controller s, re_startedAt = 0\<rparr> (runningTasks s),
       signal_aborted := (signal_aborted s)(next_controller s := False),
       timeout_armed := (timeout_armed s)(next_controller s := True),
       suspended := (suspended s)(newId \<mapsto>
          \<lparr>sb_userId = ''U1'', sb_signal = next_controller s, sb_phase = AwaitingModel\<rparr>),
       next_controller := Suc (next_controller s)\<rparr>"
  using assms
  by (simp add: spawn_as_def sessionsSpawnTool_execute_def launch_task_def research_task_def
      executeBackgroundTask_def getActiveProvider_env_gemini_ollama
      str_field_def truthy_def trim_def is_ws_def js_white_space_def MAX_CHILDREN_def Let_def)

lemma time_out_eq:
  assumes "timeout_armed s signal"
    and "suspended s taskId = Some \<lparr>sb_userId = uid, sb_signal = signal, sb_phase = AwaitingModel\<rparr>"
  shows "time_out taskId signal s =
     s\<lparr>signal_aborted := (signal_aborted s)(signal := True),
       timeout_armed := (timeout_armed s)(signal := False),
       runningTasks := AList.delete taskId (runningTasks s),
       suspended := (suspended s)(taskId := None)\<rparr>"
  using assms
  by (simp add: time_out_def timeout_fires_def executeBackgroundTask_after_model_def
      body_catch_def body_finally_def)

lemma five_running_eq:
  "five_running =
    \<lparr>background_tasks =
        [''t1'' \<mapsto> research_task ''t1'', ''t2'' \<mapsto> research_task ''t2'',
         ''t3'' \<mapsto> research_task ''t3'', ''t4'' \<mapsto> research_task ''t4'',
         ''t5'' \<mapsto> research_task ''t5''],
      runningTasks =
        [(''t1'', \<lparr>re_task = research_task ''t1'', re_abortController = 0, re_startedAt = 0\<rparr>),
         (''t2'', \<lparr>re_task = research_task ''t2'', re_abortController = 1, re_startedAt = 0\<rparr>),
         (''t3'', \<lparr>re_task = research_task ''t3'', re_abortController = 2, re_startedAt = 0\<rparr>),
         (''t4'', \<lparr>re_task = research_task ''t4'', re_abortController = 3, re_startedAt = 0\<rparr>),
         (''t5'', \<lparr>re_task = research_task ''t5'', re_abortController = 4, re_startedAt = 0\<rparr>)],
      signal_aborted = (\<lambda>r. False)(0 := False, 1 := False, 2 := False, 3 := False, 4 := False),
      timeout_armed = (\<lambda>r. False)(0 := True, 1 := True, 2 := True, 3 := True, 4 := True),
      suspended =
        [''t1'' \<mapsto> \<lparr>sb_userId = ''U1'', sb_signal = 0, sb_phase = AwaitingModel\<rparr>,
         ''t2'' \<mapsto> \<lparr>sb_userId = ''U1'', sb_signal = 1, sb_phase = AwaitingModel\<rparr>,
         ''t3'' \<mapsto> \<lparr>sb_userId = ''U1'', sb_signal = 2, sb_phase = AwaitingModel\<rparr>,
         ''t4'' \<mapsto> \<lparr>sb_userId = ''U1'', sb_signal = 3, sb_phase = AwaitingModel\<rparr>,
         ''t5'' \<mapsto> \<lparr>sb_userId = ''U1'', sb_signal = 4, sb_phase = AwaitingModel\<rparr>],
      next_controller = 5\<rparr>"
  by (simp add: five_running_def spawned_state_eq spawn_as_eq research_task_def eval_nat_numeral)

lemma five_timed_out_eq:
  "five_timed_out =
    \<lparr>background_tasks =
        [''t1'' \<mapsto> research_task ''t1'', ''t2'' \<mapsto> research_task ''t2'',
         ''t3'' \<mapsto> research_task ''t3'', ''t4'' \<mapsto> research_task ''t4'',
         ''t5'' \<mapsto> research_task ''t5''],
      runningTasks = [],
      signal_aborted = (\<lambda>r. False)(0 := True, 1 := True, 2 := True, 3 := True, 4 := True),
      timeout_armed = (\<lambda>r. False),
      suspended = Map.empty,
      next_controller = 5\<rparr>"
  by (simp add: five_timed_out_def five_running_eq time_out_eq fun_eq_iff)

text \<open>
  C5, as stated, fails. The cap counts the entries of \<open>runningTasks\<close>, not the rows
  whose status is \<open>running\<close>. After five spawns by \<open>U1\<close> that have all timed out, the
  five rows still have the status \<open>running\<close> and \<open>runningTasks\<close> is empty; the sixth spawn
  is accepted and a sixth row is stored. (A restart of the process empties
  \<open>runningTasks\<close> in the same way.)
\<close>

theorem stale_running_rows_counterexample:
  "map (\<lambda>tid. map_option bt_status (background_tasks five_timed_out tid))
       [''t1'', ''t2'', ''t3'', ''t4'', ''t5'']
     = [Some Running, Some Running, Some Running, Some Running, Some Running] \<and>
   map (\<lambda>tid. map_option bt_user_id (background_tasks five_timed_out tid))
       [''t1'', ''t2'', ''t3'', ''t4'', ''t5'']
     = [Some ''U1'', Some ''U1'', Some ''U1'', Some ''U1'', Some ''U1''] \<and>
   runningTasks five_timed_out = [] \<and>
   fst (sessionsSpawnTool_execute env_gemini_ollama five_timed_out [''task'' \<mapsto> JStr ''one more'']
          (Some \<lparr>userId = ''U1''\<rparr>) ''t6'' ''2026-01-01T00:03:00.000Z'' 180000)
     = Inr (JObj [(''status'', JStr ''accepted''), (''taskId'', JStr ''t6''),
                  (''label'', JStr ''one more''), (''model'', JStr ''gemini-2.0-flash''),
                  (''provider'', JStr ''gemini''), (''timeoutSeconds'', JNum 120),
                  (''message'', JStr ''Task started in background. Result will be sent to you automatically when complete.'')]) \<and>
   map_option bt_status
     (background_tasks
        (snd (sessionsSpawnTool_execute env_gemini_ollama five_timed_out
                [''task'' \<mapsto> JStr ''one more''] (Some \<lparr>userId = ''U1''\<rparr>) ''t6''
                ''2026-01-01T00:03:00.000Z'' 180000)) ''t6'') = Some Running"
  by (simp add: five_timed_out_eq research_task_def sessionsSpawnTool_execute_def launch_task_def
      executeBackgroundTask_def getActiveProvider_def env_gemini_ollama_def env_set_def
      str_field_def truthy_def trim_def is_ws_def js_white_space_def MAX_CHILDREN_def Let_def)

text \<open>
  C5, as amended. When the owner already has five (or more) tasks with a live handle,
  that is, entries of \<open>runningTasks\<close> with the owner's user id, a further call of
  \<open>sessions_spawn\<close> by the owner leaves the whole state, the table of rows included, as
  it was, and a call that names a task gets the \<open>limit_exceeded\<close> payload.
\<close>

theorem sessions_spawn_capacity:
  assumes "length (filter (\<lambda>(k, entry). bt_user_id (re_task entry) = uid) (runningTasks s)) \<ge> 5"
  shows "snd (sessionsSpawnTool_execute env s input (Some \<lparr>userId = uid\<rparr>) newId now nowMs) = s \<and>
         (truthy (str_field input ''task'' []) \<and> truthy uid \<longrightarrow>
            fst (sessionsSpawnTool_execute env s input (Some \<lparr>userId = uid\<rparr>) newId now nowMs) =
              Inr (JObj [(''error'', JStr ''limit_exceeded''),
                 (''message'', JStr ''Maximum 5 concurrent tasks per user. Use subagents tool to manage existing tasks.'')]))"
  by (simp add: count_user_running [OF assms])

lemma getActiveProvider_cases:
  "fst (getActiveProvider env) \<noteq> ''none'' \<Longrightarrow>
   fst (getActiveProvider env) = ''gemini'' \<or> fst (getActiveProvider env) = ''ollama'' \<or>
   fst (getActiveProvider env) = ''anthropic''"
  by (simp add: getActiveProvider_def split: if_splits)

lemma getActiveProvider_env_keys_cleared:
  "getActiveProvider env_keys_cleared = (''none'', [])"
  by (simp add: getActiveProvider_def env_keys_cleared_def env_set_def truthy_def trim_def)

lemma launch_task_collision:
  "background_tasks s (bt_id t) \<noteq> None \<Longrightarrow>
   launch_task env s t now nowMs =
     Inl (ErrorObj ''SqliteError'' ''UNIQUE constraint failed: background_tasks.id'')"
  by (simp add: launch_task_def)

lemma launch_task_inserts:
  assumes "background_tasks s (bt_id t) = None"
  shows "\<exists>s'. launch_task env s t now nowMs = Inr s' \<and>
           background_tasks s' =
             (background_tasks s)(bt_id t \<mapsto>
                (if fst (getActiveProvider env) = ''none''
                 then t\<lparr>bt_status := Failed,
                        bt_result := Some ''Error: No AI provider configured'',
                        bt_completed_at := Some now\<rparr>
                 else t)) \<and>
           map_of (runningTasks s') =
             (map_of (runningTasks s))(bt_id t \<mapsto>
                \<lparr>re_task = t, re_abortController = next_controller s, re_startedAt = nowMs\<rparr>)"
proof (cases "fst (getActiveProvider env) = ''none''")
  case True
  with assms show ?thesis
    by (simp add: launch_task_def executeBackgroundTask_def body_catch_def Let_def update_conv
        UPDATE_task_def new_Error_def truthy_def fun_eq_iff)
next
  case False
  with assms getActiveProvider_cases [OF False] show ?thesis
    by (auto simp: launch_task_def executeBackgroundTask_def Let_def update_conv fun_eq_iff)
qed

lemma steerTask_unfold:
  assumes "map_of (runningTasks s) taskId = Some running"
  shows "steerTask env s taskId newMessage newId now nowMs =
     (case launch_task env
             (s\<lparr>signal_aborted := (signal_aborted s)(re_abortController running := True),
                runningTasks := AList.delete taskId (runningTasks s),
                background_tasks :=
                  UPDATE_task (background_tasks s) taskId
                    (\<lambda>row. row\<lparr>bt_status := Cancelled,
                                 bt_result := Some ''Steered to new task'',
                                 bt_completed_at := Some now\<rparr>)\<rparr>)
             (steered_task (re_task running) newMessage newId now) now nowMs of
        Inl e \<Rightarrow> (Inl e,
             s\<lparr>signal_aborted := (signal_aborted s)(re_abortController running := True),
                runningTasks := AList.delete taskId (runningTasks s),
                background_tasks :=
                  UPDATE_task (background_tasks s) taskId
                    (\<lambda>row. row\<lparr>bt_status := Cancelled,
                                 bt_result := Some ''Steered to new task'',
                                 bt_completed_at := Some now\<rparr>)\<rparr>)
      | Inr s' \<Rightarrow> (Inr (Some newId), s'))"
  using assms by (simp add: steerTask_def steered_task_def Let_def)

lemma steerTask_collision:
  assumes running: "map_of (runningTasks s) taskId = Some running"
      and row: "background_tasks s taskId = Some row"
      and taken: "background_tasks s newId \<noteq> None"
  shows "steerTask env s taskId newMessage newId now nowMs =
     (Inl (ErrorObj ''SqliteError'' ''UNIQUE constraint failed: background_tasks.id''),
      s\<lparr>signal_aborted := (signal_aborted s)(re_abortController running := True),
        runningTasks := AList.delete taskId (runningTasks s),
        background_tasks :=
          (background_tasks s)(taskId \<mapsto>
             row\<lparr>bt_status := Cancelled, bt_result := Some ''Steered to new task'',
                 bt_completed_at := Some now\<rparr>)\<rparr>)"
proof -
  let ?s1 = "s\<lparr>signal_aborted := (signal_aborted s)(re_abortController running := True),
                runningTasks := AList.delete taskId (runningTasks s),
                background_tasks :=
                  UPDATE_task (background_tasks s) taskId
                    (\<lambda>row. row\<lparr>bt_status := Cancelled,
                                 bt_result := Some ''Steered to new task'',
                                 bt_completed_at := Some now\<rparr>)\<rparr>"
  have "background_tasks ?s1 (bt_id (steered_task (re_task running) newMessage newId now)) \<noteq> None"
    using taken row by (simp add: UPDATE_task_def steered_task_def)
  from launch_task_collision [OF this, of env now nowMs] row show ?thesis
    by (simp add: steerTask_unfold [OF running] UPDATE_task_def)
qed

lemma steerTask_fresh:
  assumes running: "map_of (runningTasks s) taskId = Some running"
      and row: "background_tasks s taskId = Some row"
      and fresh: "background_tasks s newId = None"
  shows "\<exists>s'. steerTask env s taskId newMessage newId now nowMs = (Inr (Some newId), s') \<and>
     newId \<noteq> taskId \<and>
     background_tasks s' =
       (background_tasks s)
         (taskId \<mapsto> row\<lparr>bt_status := Cancelled, bt_result := Some ''Steered to new task'',
                          bt_completed_at := Some now\<rparr>,
          newId \<mapsto>
            (if fst (getActiveProvider env) = ''none''
             then (steered_task (re_task running) newMessage newId now)
                    \<lparr>bt_status := Failed,
                     bt_result := Some ''Error: No AI provider configured'',
                     bt_completed_at := Some now\<rparr>
             else steered_task (re_task running) newMessage newId now)) \<and>
     map_of (runningTasks s') =
       ((map_of (runningTasks s))(taskId := None))
         (newId \<mapsto> \<lparr>re_task = steered_task (re_task running) newMessage newId now,
                       re_abortController = next_controller s, re_startedAt = nowMs\<rparr>)"
proof -
  have ne: "newId \<noteq> taskId" using row fresh by auto
  let ?s1 = "s\<lparr>signal_aborted := (signal_aborted s)(re_abortController running := True),
                runningTasks := AList.delete taskId (runningTasks s),
                background_tasks :=
                  UPDATE_task (background_tasks s) taskId
                    (\<lambda>row. row\<lparr>bt_status := Cancelled,
                                 bt_result := Some ''Steered to new task'',
                                 bt_completed_at := Some now\<rparr>)\<rparr>"
  let ?new = "steered_task (re_task running) newMessage newId now"
  have id: "bt_id ?new = newId" by (simp add: steered_task_def)
  have fresh1: "background_tasks ?s1 (bt_id ?new) = None"
    using fresh ne row by (simp add: UPDATE_task_def id)
  from launch_task_inserts [OF fresh1, of env now nowMs]
  obtain s' where s': "launch_task env ?s1 ?new now nowMs = Inr s'"
      "background_tasks s' =
             (background_tasks ?s1)(bt_id ?new \<mapsto>
                (if fst (getActiveProvider env) = ''none''
                 then ?new\<lparr>bt_status := Failed,
                        bt_result := Some ''Error: No AI provider configured'',
                        bt_completed_at := Some now\<rparr>
                 else ?new))"
      "map_of (runningTasks s') =
         (map_of (runningTasks ?s1))(bt_id ?new \<mapsto>
            \<lparr>re_task = ?new, re_abortController = next_controller ?s1, re_startedAt = nowMs\<rparr>)"
    by blast
  have steer: "steerTask env s taskId newMessage newId now nowMs = (Inr (Some newId), s')"
    using s'(1) by (simp add: steerTask_unfold [OF running])
  have tbl: "background_tasks ?s1 =
      (background_tasks s)(taskId \<mapsto> row\<lparr>bt_status := Cancelled,
          bt_result := Some ''Steered to new task'', bt_completed_at := Some now\<rparr>)"
    using row by (simp add: UPDATE_task_def)
  have reg: "map_of (runningTasks ?s1) = (map_of (runningTasks s))(taskId := None)"
    by (simp add: delete_conv' fun_eq_iff delete_conv)
  from steer ne s'(2,3) show ?thesis
    unfolding tbl reg id by (intro exI [of _ s']) simp
qed

lemma sublist_steered_task:
  "sublist (bt_task t) (bt_task (steered_task t newMessage newId now)) \<and>
   sublist newMessage (bt_task (steered_task t newMessage newId now))"
proof
  show "sublist (bt_task t) (bt_task (steered_task t newMessage newId now))"
    unfolding sublist_def steered_task_def
    by (intro exI [of _ "''Original task: ''"]
        exI [of _ "[CHR 0x0A, CHR 0x0A] @ ''--- UPDATED INSTRUCTIONS ---'' @ [CHR 0x0A] @ newMessage"])
      simp
  show "sublist newMessage (bt_task (steered_task t newMessage newId now))"
    unfolding sublist_def steered_task_def
    by (intro exI [of _ "''Original task: '' @ bt_task t @
          [CHR 0x0A, CHR 0x0A] @ ''--- UPDATED INSTRUCTIONS ---'' @ [CHR 0x0A]"] exI [of _ "[]"])
      simp
qed

text \<open>
  C6, as stated, fails in two ways. The id of the new task is a random draw that is not
  checked against the table: when it is the id of an existing row (here the old task's
  own), the \<open>INSERT\<close> throws after the old task has been cancelled, so \<open>steerTask\<close> raises
  and no new task exists. And when no provider is configured at that moment, the body of
  the new task fails before its first \<open>await\<close>: \<open>steerTask\<close> returns the new id and the
  new row is already \<open>failed\<close>, not \<open>running\<close>.
\<close>

theorem steerTask_counterexample:
  "map_of (runningTasks spawned_state) ''t1'' \<noteq> None \<and>
   map_option bt_status (background_tasks spawned_state ''t1'') = Some Running \<and>
   fst (steerTask env_gemini_ollama spawned_state ''t1'' ''focus on costs'' ''t1''
          ''2026-01-01T00:01:00.000Z'' 60000)
     = Inl (ErrorObj ''SqliteError'' ''UNIQUE constraint failed: background_tasks.id'') \<and>
   map_option bt_status
     (background_tasks
        (snd (steerTask env_gemini_ollama spawned_state ''t1'' ''focus on costs'' ''t1''
                ''2026-01-01T00:01:00.000Z'' 60000)) ''t1'') = Some Cancelled \<and>
   runningTasks
     (snd (steerTask env_gemini_ollama spawned_state ''t1'' ''focus on costs'' ''t1''
             ''2026-01-01T00:01:00.000Z'' 60000)) = [] \<and>
   fst (steerTask env_keys_cleared spawned_state ''t1'' ''focus on costs'' ''t2''
          ''2026-01-01T00:01:00.000Z'' 60000) = Inr (Some ''t2'') \<and>
   map_option bt_status
     (background_tasks
        (snd (steerTask env_keys_cleared spawned_state ''t1'' ''focus on costs'' ''t2''
                ''2026-01-01T00:01:00.000Z'' 60000)) ''t2'') = Some Failed"
  by (simp add: spawned_state_eq steerTask_def launch_task_def executeBackgroundTask_def
      body_catch_def UPDATE_task_def getActiveProvider_env_keys_cleared new_Error_def
      truthy_def Let_def)

text \<open>
  C6, as amended. For a running task (an entry in \<open>runningTasks\<close> with its row in the
  table), \<open>steerTask\<close> always leaves the old row \<open>cancelled\<close> and the old entry removed.
  Whenever it returns an id, that id is the one drawn, differs from the old one and was
  not in the table. If the id drawn is in the table already, \<open>steerTask\<close> throws the
  store's error and creates nothing. If it is not, \<open>steerTask\<close> returns it; the new row's
  instructions are the original instructions (those of the entry) under \<open>Original task:\<close>
  followed by the new ones under \<open>--- UPDATED INSTRUCTIONS ---\<close>; the new task is
  registered in \<open>runningTasks\<close>; and the new row is \<open>running\<close> if a provider is
  configured, \<open>failed\<close> if none is.
\<close>

theorem steerTask_restarts:
  assumes running: "map_of (runningTasks s) taskId = Some running"
      and row: "background_tasks s taskId = Some row"
  shows "map_option bt_status
           (background_tasks (snd (steerTask env s taskId newMessage newId now nowMs)) taskId)
           = Some Cancelled \<and>
         map_of (runningTasks (snd (steerTask env s taskId newMessage newId now nowMs))) taskId
           = None \<and>
         (\<forall>nid. fst (steerTask env s taskId newMessage newId now nowMs) = Inr (Some nid) \<longrightarrow>
            nid = newId \<and> nid \<noteq> taskId \<and> background_tasks s nid = None) \<and>
         (background_tasks s newId \<noteq> None \<longrightarrow>
            fst (steerTask env s taskId newMessage newId now nowMs)
              = Inl (ErrorObj ''SqliteError'' ''UNIQUE constraint failed: background_tasks.id'') \<and>
            dom (background_tasks (snd (steerTask env s taskId newMessage newId now nowMs)))
              = dom (background_tasks s) \<and>
            runningTasks (snd (steerTask env s taskId newMessage newId now nowMs))
              = AList.delete taskId (runningTasks s)) \<and>
         (background_tasks s newId = None \<longrightarrow>
            fst (steerTask env s taskId newMessage newId now nowMs) = Inr (Some newId) \<and>
            (\<exists>new entry.
               background_tasks (snd (steerTask env s taskId newMessage newId now nowMs)) newId
                 = Some new \<and>
               bt_status new =
                 (if fst (getActiveProvider env) = ''none'' then Failed else Running) \<and>
               bt_task new = ''Original task: '' @ bt_task (re_task running) @
                             [CHR 0x0A, CHR 0x0A] @ ''--- UPDATED INSTRUCTIONS ---'' @
                             [CHR 0x0A] @ newMessage \<and>
               sublist (bt_task (re_task running)) (bt_task new) \<and>
               sublist newMessage (bt_task new) \<and>
               map_of (runningTasks (snd (steerTask env s taskId newMessage newId now nowMs))) newId
                 = Some entry \<and>
               bt_id (re_task entry) = newId \<and> bt_task (re_task entry) = bt_task new \<and>
               (fst (getActiveProvider env) \<noteq> ''none'' \<longrightarrow> re_task entry = new)))"
proof (cases "background_tasks s newId = None")
  case True
  let ?t = "steered_task (re_task running) newMessage newId now"
  from steerTask_fresh [OF running row True, of env newMessage now nowMs]
  obtain s' where s': "steerTask env s taskId newMessage newId now nowMs = (Inr (Some newId), s')"
      "newId \<noteq> taskId"
      "background_tasks s' =
       (background_tasks s)
         (taskId \<mapsto> row\<lparr>bt_status := Cancelled, bt_result := Some ''Steered to new task'',
                          bt_completed_at := Some now\<rparr>,
          newId \<mapsto>
            (if fst (getActiveProvider env) = ''none''
             then ?t\<lparr>bt_status := Failed,
                     bt_result := Some ''Error: No AI provider configured'',
                     bt_completed_at := Some now\<rparr>
             else ?t))"
      "map_of (runningTasks s') =
       ((map_of (runningTasks s))(taskId := None))
         (newId \<mapsto> \<lparr>re_task = ?t, re_abortController = next_controller s,
                       re_startedAt = nowMs\<rparr>)"
    by blast
  have task: "bt_task ?t = ''Original task: '' @ bt_task (re_task running) @
                             [CHR 0x0A, CHR 0x0A] @ ''--- UPDATED INSTRUCTIONS ---'' @
                             [CHR 0x0A] @ newMessage" and id: "bt_id ?t = newId"
    by (simp_all add: steered_task_def)
  have sub: "sublist (bt_task (re_task running)) (bt_task ?t)" "sublist newMessage (bt_task ?t)"
    using sublist_steered_task by blast+
  let ?new = "if fst (getActiveProvider env) = ''none''
             then ?t\<lparr>bt_status := Failed,
                     bt_result := Some ''Error: No AI provider configured'',
                     bt_completed_at := Some now\<rparr>
             else ?t"
  have st: "bt_status ?new = (if fst (getActiveProvider env) = ''none'' then Failed else Running)"
    and tk: "bt_task ?new = bt_task ?t"
    by (simp_all add: steered_task_def)
  have new: "\<exists>new entry.
               background_tasks s' newId = Some new \<and>
               bt_status new =
                 (if fst (getActiveProvider env) = ''none'' then Failed else Running) \<and>
               bt_task new = ''Original task: '' @ bt_task (re_task running) @
                             [CHR 0x0A, CHR 0x0A] @ ''--- UPDATED INSTRUCTIONS ---'' @
                             [CHR 0x0A] @ newMessage \<and>
               sublist (bt_task (re_task running)) (bt_task new) \<and>
               sublist newMessage (bt_task new) \<and>
               map_of (runningTasks s') newId = Some entry \<and>
               bt_id (re_task entry) = newId \<and> bt_task (re_task entry) = bt_task new \<and>
               (fst (getActiveProvider env) \<noteq> ''none'' \<longrightarrow> re_task entry = new)"
    apply (rule exI [of _ ?new])
    apply (rule exI [of _ "\<lparr>re_task = ?t, re_abortController = next_controller s,
                       re_startedAt = nowMs\<rparr>"])
    using s'(3,4) st tk task id sub by simp
  have old: "map_option bt_status (background_tasks s' taskId) = Some Cancelled"
    using s'(2,3) by simp
  have gone: "map_of (runningTasks s') taskId = None"
    using s'(2,4) by simp
  from True s'(1,2) old gone new show ?thesis by simp
next
  case False
  from steerTask_collision [OF running row False, of env newMessage now nowMs] row False
  show ?thesis
    by (auto simp: delete_conv)
qed


lemma spawn_as_under_capacity:
  assumes "length (filter (\<lambda>(k, entry). bt_user_id (re_task entry) = ''U1'') (runningTasks s)) < 5"
    and "background_tasks s newId = None"
  shows "runningTasks (spawn_as newId s) =
           AList.update newId
             \<lparr>re_task = \<lparr>bt_id = newId, bt_label = ''research the topic'',
                      bt_task = ''research the topic'', bt_status = Running, bt_result = None,
                      bt_model = None, bt_user_id = ''U1'',
                      bt_created_at = ''2026-01-01T00:00:00.000Z'', bt_completed_at = None\<rparr>,
               re_abortController = next_controller s, re_startedAt = 0\<rparr> (runningTasks s) \<and>
         background_tasks (spawn_as newId s) =
           (background_tasks s)(newId \<mapsto>
              \<lparr>bt_id = newId, bt_label = ''research the topic'',
                      bt_task = ''research the topic'', bt_status = Running, bt_result = None,
                      bt_model = None, bt_user_id = ''U1'',
                      bt_created_at = ''2026-01-01T00:00:00.000Z'', bt_completed_at = None\<rparr>) \<and>
         next_controller (spawn_as newId s) = Suc (next_controller s)"
  using assms
  by (simp add: spawn_as_def sessionsSpawnTool_execute_def launch_task_def
      executeBackgroundTask_def getActiveProvider_env_gemini_ollama
      str_field_def truthy_def trim_def is_ws_def js_white_space_def MAX_CHILDREN_def Let_def)

lemma five_running_count:
  "length (filter (\<lambda>(k, entry). bt_user_id (re_task entry) = ''U1'') (runningTasks five_running)) = 5"
  by (simp add: five_running_def spawned_state_eq spawn_as_under_capacity)

theorem sessions_spawn_capacity_witness:
  "length (filter (\<lambda>(k, entry). bt_user_id (re_task entry) = ''U1'') (runningTasks five_running)) \<ge> 5 \<and>
   sessionsSpawnTool_execute env_gemini_ollama five_running [''task'' \<mapsto> JStr ''one more'']
       (Some \<lparr>userId = ''U1''\<rparr>) ''t6'' ''2026-01-01T00:01:00.000Z'' 60000
     = (Inr (JObj [(''error'', JStr ''limit_exceeded''),
          (''message'', JStr ''Maximum 5 concurrent tasks per user. Use subagents tool to manage existing tasks.'')]),
        five_running)"
proof -
  have c: "length (filter (\<lambda>(k, entry). bt_user_id (re_task entry) = ''U1'')
              (runningTasks five_running)) \<ge> 5"
    using five_running_count by simp
  have t: "truthy (str_field [''task'' \<mapsto> JStr ''one more''] ''task'' []) \<and> truthy ''U1''"
    by (simp add: str_field_def truthy_def trim_def is_ws_def js_white_space_def)
  from sessions_spawn_capacity [OF c, of env_gemini_ollama "[''task'' \<mapsto> JStr ''one more'']"
      "''t6''" "''2026-01-01T00:01:00.000Z''" 60000] t
  have "sessionsSpawnTool_execute env_gemini_ollama five_running [''task'' \<mapsto> JStr ''one more'']
       (Some \<lparr>userId = ''U1''\<rparr>) ''t6'' ''2026-01-01T00:01:00.000Z'' 60000
     = (Inr (JObj [(''error'', JStr ''limit_exceeded''),
          (''message'', JStr ''Maximum 5 concurrent tasks per user. Use subagents tool to manage existing tasks.'')]),
        five_running)"
    by (intro prod_eqI) simp_all
  with c show ?thesis by blast
qed

theorem steerTask_restarts_witness:
  "map_of (runningTasks spawned_state) ''t1'' \<noteq> None \<and>
   background_tasks spawned_state ''t1'' \<noteq> None \<and>
   background_tasks spawned_state ''t2'' = None \<and>
   fst (getActiveProvider env_gemini_ollama) \<noteq> ''none'' \<and>
   fst (steerTask env_gemini_ollama spawned_state ''t1'' ''focus on costs'' ''t2''
          ''2026-01-01T00:01:00.000Z'' 60000) = Inr (Some ''t2'') \<and>
   ''t2'' \<noteq> ''t1'' \<and>
   map_option bt_status
     (background_tasks
        (snd (steerTask env_gemini_ollama spawned_state ''t1'' ''focus on costs'' ''t2''
                ''2026-01-01T00:01:00.000Z'' 60000)) ''t1'') = Some Cancelled \<and>
   map_option bt_status
     (background_tasks
        (snd (steerTask env_gemini_ollama spawned_state ''t1'' ''focus on costs'' ''t2''
                ''2026-01-01T00:01:00.000Z'' 60000)) ''t2'') = Some Running \<and>
   map_option bt_task
     (background_tasks
        (snd (steerTask env_gemini_ollama spawned_state ''t1'' ''focus on costs'' ''t2''
                ''2026-01-01T00:01:00.000Z'' 60000)) ''t2'')
     = Some (''Original task: research the topic'' @ [CHR 0x0A, CHR 0x0A] @
             ''--- UPDATED INSTRUCTIONS ---'' @ [CHR 0x0A] @ ''focus on costs'') \<and>
   map_of
     (runningTasks
        (snd (steerTask env_gemini_ollama spawned_state ''t1'' ''focus on costs'' ''t2''
                ''2026-01-01T00:01:00.000Z'' 60000))) ''t1'' = None \<and>
   map_of
     (runningTasks
        (snd (steerTask env_gemini_ollama spawned_state ''t1'' ''focus on costs'' ''t2''
                ''2026-01-01T00:01:00.000Z'' 60000))) ''t2'' \<noteq> None \<and>
   background_tasks spawned_state ''t1'' \<noteq> None \<and>
   fst (steerTask env_gemini_ollama spawned_state ''t1'' ''focus on costs'' ''t1''
          ''2026-01-01T00:01:00.000Z'' 60000)
     = Inl (ErrorObj ''SqliteError'' ''UNIQUE constraint failed: background_tasks.id'')"
proof -
  let ?row = "\<lparr>bt_id = ''t1'', bt_label = ''research the topic'',
                bt_task = ''research the topic'', bt_status = Running, bt_result = None,
                bt_model = None, bt_user_id = ''U1'',
                bt_created_at = ''2026-01-01T00:00:00.000Z'', bt_completed_at = None\<rparr>"
  let ?running = "\<lparr>re_task = ?row, re_abortController = 0, re_startedAt = 0\<rparr>"
  let ?steer = "steerTask env_gemini_ollama spawned_state ''t1'' ''focus on costs'' ''t2''
         ''2026-01-01T00:01:00.000Z'' 60000"
  have running: "map_of (runningTasks spawned_state) ''t1'' = Some ?running"
    by (simp add: spawned_state_eq)
  have row: "background_tasks spawned_state ''t1'' = Some ?row"
    by (simp add: spawned_state_eq)
  have fresh: "background_tasks spawned_state ''t2'' = None"
    by (simp add: spawned_state_eq)
  have provider: "fst (getActiveProvider env_gemini_ollama) \<noteq> ''none''"
    by (simp add: getActiveProvider_env_gemini_ollama)
  note a = steerTask_restarts [OF running row, of env_gemini_ollama "''focus on costs''" "''t2''"
      "''2026-01-01T00:01:00.000Z''" 60000]
  note b = steerTask_restarts [OF running row, of env_gemini_ollama "''focus on costs''" "''t1''"
      "''2026-01-01T00:01:00.000Z''" 60000]
  from a have old: "map_option bt_status (background_tasks (snd ?steer) ''t1'') = Some Cancelled"
    and gone: "map_of (runningTasks (snd ?steer)) ''t1'' = None"
    by blast+
  from a fresh have ok: "fst ?steer = Inr (Some ''t2'')"
    by blast
  from a fresh provider obtain new entry where r:
      "background_tasks (snd ?steer) ''t2'' = Some new" "bt_status new = Running"
      "bt_task new = ''Original task: '' @ bt_task (re_task ?running) @
                         [CHR 0x0A, CHR 0x0A] @ ''--- UPDATED INSTRUCTIONS ---'' @
                         [CHR 0x0A] @ ''focus on costs''"
      "map_of (runningTasks (snd ?steer)) ''t2'' = Some entry"
    by auto
  from b row have c: "fst (steerTask env_gemini_ollama spawned_state ''t1'' ''focus on costs'' ''t1''
          ''2026-01-01T00:01:00.000Z'' 60000)
     = Inl (ErrorObj ''SqliteError'' ''UNIQUE constraint failed: background_tasks.id'')"
    by blast
  from running row fresh provider old gone ok r c show ?thesis by simp
qed


section \<open>Properties of the scheduled jobs\<close>

lemma stop_handle_simps [simp]:
  "cron_jobs (stop_handle s jid) = cron_jobs s"
  "cron_runs (stop_handle s jid) = cron_runs s"
  "next_timer (stop_handle s jid) = next_timer s"
  "next_run_id (stop_handle s jid) = next_run_id s"
  "activeTasks (stop_handle s jid) = (activeTasks s)(jid := None)"
  by (auto simp: stop_handle_def split: option.splits)

lemma timers_stop_handle:
  "timers (stop_handle s jid) h =
     (if activeTasks s jid = Some h then None else timers s h)"
  by (auto simp: stop_handle_def split: option.splits)

lemma timers_registered_stop_handle:
  assumes "timers_registered s"
  shows "timers_registered (stop_handle s jid)"
  using assms unfolding timers_registered_def
  by (auto simp: timers_stop_handle)

lemma no_timer_after_stop:
  assumes "timers_registered s"
  shows "timers (stop_handle s jid) h = Some j \<Longrightarrow> job_id j \<noteq> jid"
  using assms unfolding timers_registered_def
  by (auto simp: timers_stop_handle split: if_splits)

lemma timers_registered_arm:
  assumes "timers_registered s" and "\<And>h j. timers s h = Some j \<Longrightarrow> job_id j \<noteq> job_id job"
  shows "timers_registered (arm s job)"
  using assms unfolding timers_registered_def arm_def Let_def
  by (auto simp: less_Suc_eq)

lemma timers_registered_scheduleJob:
  assumes "timers_registered s"
  shows "timers_registered (snd (scheduleJob lib s job nowMs))"
proof -
  have a: "timers_registered (stop_handle s (job_id job))"
    using assms by (rule timers_registered_stop_handle)
  have b: "timers_registered (arm (stop_handle s (job_id job)) job)"
    using a no_timer_after_stop [OF assms] by (rule timers_registered_arm)
  show ?thesis
    using a b by (simp add: scheduleJob_def Let_def split: option.split)
qed

lemma scheduleJob_tables [simp]:
  "cron_jobs (snd (scheduleJob lib s job nowMs)) = cron_jobs s"
  "cron_runs (snd (scheduleJob lib s job nowMs)) = cron_runs s"
  by (auto simp: scheduleJob_def arm_def Let_def split: option.split)

lemma activeTasks_scheduleJob:
  "activeTasks (snd (scheduleJob lib s job nowMs)) jid =
     (if jid = job_id job
      then (if job_enabled job \<noteq> 0 \<and> armable lib job nowMs then Some (next_timer s) else None)
      else activeTasks s jid)"
  by (auto simp: scheduleJob_def arm_def armable_def Let_def split: option.split)

lemma fst_scheduleJob:
  "(fst (scheduleJob lib s job nowMs) = Inr True)
     = (job_enabled job \<noteq> 0 \<and> armable lib job nowMs)"
  by (auto simp: scheduleJob_def armable_def Let_def split: option.split)

text \<open>
  When \<open>cron.schedule\<close> throws, the job is enabled, its old handle is gone and it has no
  new one.
\<close>

lemma scheduleJob_throws:
  "fst (scheduleJob lib s job nowMs) = Inl e \<Longrightarrow>
   job_enabled job \<noteq> 0 \<and> job_schedule_type job = Cron \<and> cron_validate lib (job_schedule job) \<and>
   schedule_throws lib (job_schedule job) (timezone_option job) = Some e \<and>
   snd (scheduleJob lib s job nowMs) = stop_handle s (job_id job)"
  by (cases "job_schedule_type job")
    (auto simp: scheduleJob_def Let_def split: option.splits if_splits)

text \<open>Scheduling the job that the table holds under its id keeps handles on enabled rows.\<close>

lemma handles_enabled_scheduleJob:
  assumes "\<And>jid h. jid \<noteq> job_id job \<Longrightarrow> activeTasks s jid = Some h \<Longrightarrow>
             \<exists>j. cron_jobs s jid = Some j \<and> job_enabled j \<noteq> 0"
    and "cron_jobs s (job_id job) = Some job"
  shows "handles_enabled (snd (scheduleJob lib s job nowMs))"
  using assms unfolding handles_enabled_def row_enabled_def
  by (auto simp: activeTasks_scheduleJob split: if_splits)





lemma DELETE_job_fields [simp]:
  "cron_jobs (DELETE_job lib s jid) = (cron_jobs s)(jid := None)"
  "activeTasks (DELETE_job lib s jid) = activeTasks s"
  "timers (DELETE_job lib s jid) = timers s"
  "next_timer (DELETE_job lib s jid) = next_timer s"
  by (simp_all add: DELETE_job_def)


lemma executeJob_push_failed:
  "executeJob lib s job (Some err) st ct = executeJob_catch lib s job err st ct"
  by (simp add: executeJob_def)

lemma executeJob_push_ok:
  "executeJob lib s job None st ct =
     (case INSERT_run lib
             (s\<lparr>cron_jobs :=
                  UPDATE_job (cron_jobs s) (job_id job)
                    (\<lambda>row. row\<lparr>job_last_run_at := Some ct, job_last_status := Some ''success'',
                                 job_last_error := None,
                                 job_run_count := job_run_count row + 1\<rparr>)\<rparr>)
             (job_id job) (job_name job) ''success'' None st ct of
        Inl e \<Rightarrow>
          executeJob_catch lib
            (s\<lparr>cron_jobs :=
                 UPDATE_job (cron_jobs s) (job_id job)
                   (\<lambda>row. row\<lparr>job_last_run_at := Some ct, job_last_status := Some ''success'',
                                job_last_error := None,
                                job_run_count := job_run_count row + 1\<rparr>)\<rparr>)
            job e st ct
      | Inr s2 \<Rightarrow>
          if job_delete_after_run job \<noteq> 0
          then (Inr (True, None), stop_handle (DELETE_job lib s2 (job_id job)) (job_id job))
          else if job_schedule_type job = Once
          then (Inr (True, None),
                stop_handle
                  (s2\<lparr>cron_jobs := UPDATE_job (cron_jobs s2) (job_id job)
                                       (\<lambda>row. row\<lparr>job_enabled := 0\<rparr>)\<rparr>)
                  (job_id job))
          else (Inr (True, None), s2))"
  unfolding executeJob_def Let_def
  by (simp split: sum.split)





lemma handles_enabled_same:
  assumes "handles_enabled s" and "same_handles s s'"
    and "\<And>k. row_enabled (cron_jobs s') k = row_enabled (cron_jobs s) k"
  shows "handles_enabled s'"
  using assms by (simp add: handles_enabled_def same_handles_def)








lemma rows_keyed_insert: "rows_keyed tbl \<Longrightarrow> job_id j = k \<Longrightarrow> rows_keyed (tbl(k \<mapsto> j))"
  by (simp add: rows_keyed_def)




text \<open>Putting a row under its id and scheduling it.\<close>

lemma cron_inv_put_and_schedule:
  assumes inv: "cron_inv s" and id: "job_id job = jid"
  shows "cron_inv (snd (scheduleJob lib (s\<lparr>cron_jobs := (cron_jobs s)(jid \<mapsto> job)\<rparr>) job nowMs))"
proof -
  let ?s1 = "s\<lparr>cron_jobs := (cron_jobs s)(jid \<mapsto> job)\<rparr>"
  have rk: "rows_keyed (cron_jobs ?s1)"
    using inv id by (simp add: cron_inv_def rows_keyed_insert)
  have tr: "timers_registered ?s1"
    using inv by (simp add: cron_inv_def timers_registered_def)
  have others: "\<And>k h. k \<noteq> job_id job \<Longrightarrow> activeTasks ?s1 k = Some h \<Longrightarrow>
             \<exists>j. cron_jobs ?s1 k = Some j \<and> job_enabled j \<noteq> 0"
    using inv id by (auto simp: cron_inv_def handles_enabled_def row_enabled_def)
  have own: "cron_jobs ?s1 (job_id job) = Some job"
    using id by simp
  from handles_enabled_scheduleJob [of job ?s1, OF others own]
    timers_registered_scheduleJob [OF tr] rk
  show ?thesis
    by (simp add: cron_inv_def)
qed


lemma cron_inv_add:
  assumes "cron_inv s"
  shows "cron_inv (snd (cronTool_add lib s input ctx newId now nowMs))"
  using assms
  by (auto simp: cronTool_add_def Let_def cron_inv_put_and_schedule split: sum.split)












lemma cron_inv_initial: "cron_inv initial_cron_state"
  by (simp add: cron_inv_def initial_cron_state_def rows_keyed_def handles_enabled_def
      timers_registered_def)






lemma standup_state_eq:
  "standup_state =
     \<lparr>cron_jobs = [''j1'' \<mapsto> added_job ''0 8 * * *'' Cron 0], cron_runs = [], next_run_id = 1,
      activeTasks = [''j1'' \<mapsto> 0], timers = [0 \<mapsto> added_job ''0 8 * * *'' Cron 0],
      next_timer = Suc 0\<rparr>"
  by (simp add: standup_state_def state_after_add_def cronTool_add_def add_input_def
      add_schedule_type_def scheduleJob_def stop_handle_def arm_def test_cron_lib_def
      timezone_option_def       initial_cron_state_def added_job_def str_field_def truthy_def trim_def is_ws_def js_white_space_def
      is_digit_def Let_def)

lemma reminder_state_eq:
  "reminder_state =
     \<lparr>cron_jobs = [''j1'' \<mapsto> added_job ''0 8 * * *'' Cron 1], cron_runs = [], next_run_id = 1,
      activeTasks = [''j1'' \<mapsto> 0], timers = [0 \<mapsto> added_job ''0 8 * * *'' Cron 1],
      next_timer = Suc 0\<rparr>"
  by (simp add: reminder_state_def state_after_add_def cronTool_add_def add_input_def
      add_schedule_type_def scheduleJob_def stop_handle_def arm_def test_cron_lib_def
      timezone_option_def       initial_cron_state_def added_job_def str_field_def truthy_def trim_def is_ws_def js_white_space_def
      is_digit_def Let_def)



lemma add_schedule_type_past:
  assumes "iso_date_like sched" and "Date_parse lib sched = Some d" and "d \<le> nowMs"
  shows "add_schedule_type lib sched nowMs =
           Inl (error_payload ''past_date'' ''Cannot schedule in the past.'')"
  using assms by (simp add: add_schedule_type_def)

lemma add_schedule_type_invalid_cron:
  assumes "\<not> iso_date_like sched" and "\<not> cron_validate lib sched"
  shows "\<exists>msg. add_schedule_type lib sched nowMs = Inl (error_payload ''invalid_schedule'' msg)"
  using assms by (simp add: add_schedule_type_def) blast

lemma cronTool_add_rejected:
  assumes "add_schedule_type lib (str_field input ''schedule'' []) nowMs = Inl reply"
  shows "snd (cronTool_add lib s input ctx newId now nowMs) = s"
  using assms by (simp add: cronTool_add_def Let_def)

lemma update_schedule_patch_invalid_cron:
  assumes "truthy (str_field input ''schedule'' [])"
    and "\<not> iso_date_like (str_field input ''schedule'' [])"
    and "\<not> cron_validate lib (str_field input ''schedule'' [])"
  shows "\<exists>msg. update_schedule_patch lib input = Inl (error_payload ''invalid_schedule'' msg)"
  using assms by (simp add: update_schedule_patch_def Let_def) blast

text \<open>
  C7. \<open>add\<close> rejects a one-shot schedule that is not strictly in the future with
  \<open>past_date\<close> and persists nothing (\<open>add_schedule_type_past\<close>,
  \<open>cronTool_add_rejected\<close>), and both \<open>add\<close> and \<open>update\<close> reject an invalid cron
  expression. But \<open>update\<close> does not validate a changed schedule the way \<open>add\<close> does:
  its one-shot branch lacks the check against the clock. With the daily job \<open>j1\<close> in
  the table and the clock at 1 January 2026, \<open>add\<close> refuses the schedule
  \<open>2020-01-01T00:00\<close>, while \<open>update\<close> of \<open>j1\<close> to the same schedule succeeds, stores
  it as a one-shot job that stays enabled, and leaves the job without a handle.
\<close>

theorem update_accepts_past_date:
  "fst (cronTool_add test_cron_lib standup_state (add_input ''2020-01-01T00:00'' False)
          (Some \<lparr>userId = ''U1''\<rparr>) ''j2'' ''2026-01-01T00:00:00.000Z'' 1767225600000)
     = error_payload ''past_date'' ''Cannot schedule in the past.'' \<and>
   snd (cronTool_add test_cron_lib standup_state (add_input ''2020-01-01T00:00'' False)
          (Some \<lparr>userId = ''U1''\<rparr>) ''j2'' ''2026-01-01T00:00:00.000Z'' 1767225600000)
     = standup_state \<and>
   json_field ''success''
     (fst (cronTool_update test_cron_lib standup_state
             [''action'' \<mapsto> JStr ''update'', ''jobId'' \<mapsto> JStr ''j1'',
              ''schedule'' \<mapsto> JStr ''2020-01-01T00:00''] 1767225600000))
     = Some (JBool True) \<and>
   cron_jobs
     (snd (cronTool_update test_cron_lib standup_state
             [''action'' \<mapsto> JStr ''update'', ''jobId'' \<mapsto> JStr ''j1'',
              ''schedule'' \<mapsto> JStr ''2020-01-01T00:00''] 1767225600000)) ''j1''
     = Some (added_job ''2020-01-01T00:00'' Once 0) \<and>
   activeTasks
     (snd (cronTool_update test_cron_lib standup_state
             [''action'' \<mapsto> JStr ''update'', ''jobId'' \<mapsto> JStr ''j1'',
              ''schedule'' \<mapsto> JStr ''2020-01-01T00:00''] 1767225600000)) ''j1''
     = None"
  by (simp add: standup_state_eq cronTool_add_def cronTool_update_def add_input_def
      add_schedule_type_def update_schedule_patch_def update_field_patch_def scheduleJob_def
      stop_handle_def test_cron_lib_def added_job_def str_field_def truthy_def trim_def
      is_ws_def js_white_space_def is_digit_def formatJob_def Let_def)

text \<open>
  C8, as stated, fails for a job flagged \<open>delete_after_run\<close>: its successful firing
  deletes the job's row, so no run count is left to be one higher; where the store
  enforces the foreign key, the run row just appended is deleted with it.
\<close>

theorem delete_after_run_counterexample:
  "cron_jobs reminder_state ''j1'' = Some (added_job ''0 8 * * *'' Cron 1) \<and>
   cron_jobs
     (snd (executeJob test_cron_lib reminder_state (added_job ''0 8 * * *'' Cron 1) None
             ''2026-01-02T01:00:00.000Z'' ''2026-01-02T01:00:01.000Z'')) ''j1'' = None \<and>
   cron_runs
     (snd (executeJob test_cron_lib reminder_state (added_job ''0 8 * * *'' Cron 1) None
             ''2026-01-02T01:00:00.000Z'' ''2026-01-02T01:00:01.000Z'')) = [] \<and>
   cron_jobs
     (snd (executeJob (test_cron_lib\<lparr>foreign_keys := False\<rparr>) reminder_state
             (added_job ''0 8 * * *'' Cron 1) None
             ''2026-01-02T01:00:00.000Z'' ''2026-01-02T01:00:01.000Z'')) ''j1'' = None"
  by (simp add: reminder_state_eq executeJob_push_ok INSERT_run_def DELETE_job_def UPDATE_job_def
      stop_handle_def test_cron_lib_def added_job_def)

text \<open>
  C8, as amended. Every firing of a job that has its row, other than a successful firing
  of a job flagged \<open>delete_after_run\<close>, appends exactly one run row (status \<open>success\<close>
  or \<open>error\<close>, with the start and end times) and raises the row's \<open>run_count\<close> by
  exactly 1, setting \<open>last_run_at\<close> and \<open>last_status\<close>. A failed firing records
  \<open>last_status = error\<close> with the first 500 characters of the error message, in the row
  and in the run, and leaves the \<open>enabled\<close> flag, the handles and the timers as they
  were.
\<close>

theorem executeJob_records_firing:
  assumes row: "cron_jobs s (job_id job) = Some row"
      and kept: "\<not> (pushOutcome = None \<and> job_delete_after_run job \<noteq> 0)"
  shows "\<exists>row'.
           fst (executeJob lib s job pushOutcome startedAt completedAt)
             = Inr (pushOutcome = None, map_option errorMsg_of pushOutcome) \<and>
           cron_runs (snd (executeJob lib s job pushOutcome startedAt completedAt))
             = cron_runs s @
                 [\<lparr>run_id = next_run_id s, run_job_id = job_id job, run_job_name = job_name job,
                   run_status = (if pushOutcome = None then ''success'' else ''error''),
                   run_error = map_option (\<lambda>e. take 500 (errorMsg_of e)) pushOutcome,
                   run_started_at = startedAt, run_completed_at = Some completedAt\<rparr>] \<and>
           cron_jobs (snd (executeJob lib s job pushOutcome startedAt completedAt)) (job_id job)
             = Some row' \<and>
           job_run_count row' = job_run_count row + 1 \<and>
           job_last_run_at row' = Some completedAt \<and>
           job_last_status row' = Some (if pushOutcome = None then ''success'' else ''error'') \<and>
           job_last_error row' = map_option (\<lambda>e. take 500 (errorMsg_of e)) pushOutcome \<and>
           (pushOutcome \<noteq> None \<longrightarrow>
              job_enabled row' = job_enabled row \<and>
              activeTasks (snd (executeJob lib s job pushOutcome startedAt completedAt))
                = activeTasks s \<and>
              timers (snd (executeJob lib s job pushOutcome startedAt completedAt)) = timers s)"
proof (cases pushOutcome)
  case (Some err)
  with row show ?thesis
    by (simp add: executeJob_push_failed executeJob_catch_def INSERT_run_def UPDATE_job_def Let_def)
next
  case None
  with kept have nodel: "job_delete_after_run job = 0" by simp
  with None row show ?thesis
    by (simp add: executeJob_push_ok INSERT_run_def UPDATE_job_def stop_handle_def
        split: option.split)
qed

text \<open>
  A job added with a time zone that \<open>cron.schedule\<close> refuses: the reply is
  \<open>action_failed\<close>, and the row stays in the table, enabled, with no handle.
\<close>

lemma add_unknown_timezone:
  "fst zoned_state =
     JObj [(''error'', JStr ''action_failed''), (''action'', JStr ''add''),
           (''message'', JStr ''Invalid time zone specified: Mars/Olympus'')] \<and>
   map_option job_enabled (cron_jobs (snd zoned_state) ''j1'') = Some 1 \<and>
   map_option job_timezone (cron_jobs (snd zoned_state) ''j1'') = Some ''Mars/Olympus'' \<and>
   activeTasks (snd zoned_state) ''j1'' = None \<and>
   cron_inv (snd zoned_state)"
proof -
  have "cron_inv (snd zoned_state)"
    unfolding zoned_state_def using cron_inv_initial by (rule cron_inv_add)
  then show ?thesis
    by (simp add: zoned_state_def cronTool_add_def add_input_def add_schedule_type_def
        scheduleJob_def stop_handle_def test_cron_lib_def timezone_option_def action_failed_def
        initial_cron_state_def str_field_def truthy_def trim_def is_ws_def js_white_space_def
        is_digit_def Let_def)
qed



theorem executeJob_records_firing_witness:
  "cron_jobs reminder_state (job_id (added_job ''0 8 * * *'' Cron 1))
     = Some (added_job ''0 8 * * *'' Cron 1) \<and>
   fst (executeJob test_cron_lib reminder_state (added_job ''0 8 * * *'' Cron 1)
          (Some (new_Error ''push failed'')) ''2026-01-02T01:00:00.000Z'' ''2026-01-02T01:00:01.000Z'')
     = Inr (False, Some ''push failed'') \<and>
   length (cron_runs
     (snd (executeJob test_cron_lib reminder_state (added_job ''0 8 * * *'' Cron 1)
          (Some (new_Error ''push failed'')) ''2026-01-02T01:00:00.000Z'' ''2026-01-02T01:00:01.000Z'')))
     = 1 \<and>
   map_option (\<lambda>r. (job_run_count r, job_last_status r, job_last_error r, job_enabled r))
     (cron_jobs
        (snd (executeJob test_cron_lib reminder_state (added_job ''0 8 * * *'' Cron 1)
          (Some (new_Error ''push failed'')) ''2026-01-02T01:00:00.000Z'' ''2026-01-02T01:00:01.000Z''))
        ''j1'')
     = Some (1, Some ''error'', Some ''push failed'', 1) \<and>
   activeTasks
     (snd (executeJob test_cron_lib reminder_state (added_job ''0 8 * * *'' Cron 1)
          (Some (new_Error ''push failed'')) ''2026-01-02T01:00:00.000Z'' ''2026-01-02T01:00:01.000Z''))
     ''j1'' = Some 0"
proof -
  let ?job = "added_job ''0 8 * * *'' Cron 1"
  let ?po = "Some (new_Error ''push failed'')"
  have row: "cron_jobs reminder_state (job_id ?job) = Some ?job"
    by (simp add: reminder_state_eq added_job_def)
  have kept: "\<not> (?po = None \<and> job_delete_after_run ?job \<noteq> 0)"
    by simp
  from executeJob_records_firing [OF row kept, of test_cron_lib
      "''2026-01-02T01:00:00.000Z''" "''2026-01-02T01:00:01.000Z''"]
  obtain row' where r:
      "fst (executeJob test_cron_lib reminder_state ?job ?po
              ''2026-01-02T01:00:00.000Z'' ''2026-01-02T01:00:01.000Z'')
         = Inr (?po = None, map_option errorMsg_of ?po)"
      "cron_runs (snd (executeJob test_cron_lib reminder_state ?job ?po
              ''2026-01-02T01:00:00.000Z'' ''2026-01-02T01:00:01.000Z''))
         = cron_runs reminder_state @
             [\<lparr>run_id = next_run_id reminder_state, run_job_id = job_id ?job,
               run_job_name = job_name ?job,
               run_status = (if ?po = None then ''success'' else ''error''),
               run_error = map_option (\<lambda>e. take 500 (errorMsg_of e)) ?po,
               run_started_at = ''2026-01-02T01:00:00.000Z'',
               run_completed_at = Some ''2026-01-02T01:00:01.000Z''\<rparr>]"
      "cron_jobs (snd (executeJob test_cron_lib reminder_state ?job ?po
              ''2026-01-02T01:00:00.000Z'' ''2026-01-02T01:00:01.000Z'')) (job_id ?job) = Some row'"
      "job_run_count row' = job_run_count ?job + 1"
      "job_last_status row' = Some (if ?po = None then ''success'' else ''error'')"
      "job_last_error row' = map_option (\<lambda>e. take 500 (errorMsg_of e)) ?po"
      "?po \<noteq> None \<longrightarrow>
         job_enabled row' = job_enabled ?job \<and>
         activeTasks (snd (executeJob test_cron_lib reminder_state ?job ?po
              ''2026-01-02T01:00:00.000Z'' ''2026-01-02T01:00:01.000Z'')) = activeTasks reminder_state \<and>
         timers (snd (executeJob test_cron_lib reminder_state ?job ?po
              ''2026-01-02T01:00:00.000Z'' ''2026-01-02T01:00:01.000Z'')) = timers reminder_state"
    by blast
  have j: "job_id ?job = ''j1''" "job_run_count ?job = 0" "job_enabled ?job = 1"
    by (simp_all add: added_job_def)
  have rs: "cron_runs reminder_state = []" "activeTasks reminder_state ''j1'' = Some 0"
    by (simp_all add: reminder_state_eq)
  from row r j rs show ?thesis
    by (simp add: new_Error_def truthy_def)
qed


end
